theory Spec2Isabelle
  imports Main
begin

section \<open>Strings, rows and the persistent state\<close>

text \<open>
  A Python \<open>str\<close> is a sequence of Unicode code points, and \<open>len\<close> counts code
  points; texts (document content, compiler output, error messages) are therefore lists
  of code points. Identifiers that the code only compares (version kinds, statuses,
  paths, model ids) are HOL strings. Timestamps are integers counting microseconds, the
  resolution of \<open>datetime\<close>.
\<close>

type_synonym pystr = "nat list"
type_synonym blob = "nat list"

definition lit :: "string \<Rightarrow> pystr" where
  "lit s = map of_char s"

text \<open>The code points for which \<open>str.isspace\<close> holds; \<open>str.strip()\<close> removes them at both ends.\<close>

definition isspace :: "nat \<Rightarrow> bool" where
  "isspace c \<longleftrightarrow> (9 \<le> c \<and> c \<le> 13) \<or> (28 \<le> c \<and> c \<le> 32) \<or> c = 133 \<or> c = 160
     \<or> c = 5760 \<or> (8192 \<le> c \<and> c \<le> 8202) \<or> c = 8232 \<or> c = 8233 \<or> c = 8239
     \<or> c = 8287 \<or> c = 12288"

definition strip :: "pystr \<Rightarrow> pystr" where
  "strip s = rev (dropWhile isspace (rev (dropWhile isspace s)))"

text \<open>\<open>str(i)\<close> for a non-negative integer.\<close>

function str_nat :: "nat \<Rightarrow> string" where
  "str_nat n = (if n < 10 then [char_of (48 + n)]
                else str_nat (n div 10) @ [char_of (48 + n mod 10)])"
  by pat_completeness auto
termination
  by (relation "measure id") auto

declare str_nat.simps [simp del]

text \<open>
  The exceptions, each with its message \<open>str(e)\<close>: the repository's own
  \<open>LatexCompileError\<close>, the \<open>RuntimeError\<close> of llm.py, the \<open>UnicodeDecodeError\<close> and
  \<open>OSError\<close> that \<open>subprocess.run\<close> raises, and any other subclass of \<open>Exception\<close>.
\<close>

datatype exn = LatexCompileError pystr | RuntimeError pystr | UnicodeDecodeError pystr
  | OSError pystr | OtherError pystr

fun str_exn :: "exn \<Rightarrow> pystr" where
  "str_exn (LatexCompileError m) = m"
| "str_exn (RuntimeError m) = m"
| "str_exn (UnicodeDecodeError m) = m"
| "str_exn (OSError m) = m"
| "str_exn (OtherError m) = m"

record document =
  d_id :: nat
  owner_id :: nat
  filename :: string
  d_size :: int
  original_path :: string
  extracted_text :: "pystr option"
  status :: string
  last_error :: "pystr option"
  editor_open :: bool
  editor_heartbeat_at :: "int option"
  d_created_at :: int
  d_updated_at :: int

record version =
  v_id :: nat
  doc_id :: nat
  kind :: string
  tex_source :: pystr
  pdf_path :: string
  plain_text :: pystr
  created_at :: int
  updated_at :: int

record chunk =
  c_doc_id :: nat
  c_kind :: string
  chunk_id :: string
  content :: pystr

text \<open>
  The state a job works on: the three tables in row order (\<open>.first()\<close> takes the first
  matching row), the artifact files on disk, and a trace of the calls made to the outside
  (\<open>io_count\<close> numbers every clock read, network call and subprocess; \<open>compile_log\<close>
  lists the sources handed to \<open>compile_tex_to_pdf\<close>, \<open>llm_log\<close> the chat requests).
  File operations on existing paths succeed: operating-system failures, which the code
  swallows around its clean-up steps, are not generated.
\<close>

record world =
  documents :: "document list"
  versions :: "version list"
  next_version_id :: nat
  chunks_fts :: "chunk list"
  files :: "string \<rightharpoonup> blob"
  io_count :: nat
  compile_log :: "pystr list"
  llm_log :: "(string \<times> pystr \<times> pystr) list"

record proc =
  returncode :: int
  stdout_bytes :: blob
  main_pdf :: "blob option"

record settings =
  generated_dir :: string
  llm_provider :: string
  openrouter_api_key :: string
  openrouter_model :: string
  latex_max_runs :: int

text \<open>
  The collaborators outside the repository, each answer indexed by the position of the
  call in the run (\<open>io_count\<close>): the clock, the PDF text extractor, the chat endpoint, the
  model catalogue as ranked by \<open>pick_models\<close>, one pass of the LaTeX engine
  (\<open>Inl\<close> the message of the \<open>OSError\<close> when the engine cannot be started, otherwise
  the exit code, the bytes written to stdout and stderr, and \<open>main.pdf\<close>), and the
  strict decoder that \<open>text=True\<close> applies to those bytes (\<open>Inl\<close> the message of the
  \<open>UnicodeDecodeError\<close>). The pure
  text functions built on Python's \<open>re\<close> and \<open>str.lower\<close>, and the prompt builder,
  are parameters as well: no property below depends on the text they return.
\<close>

record env =
  utcnow :: "nat \<Rightarrow> int"
  extract_text_from_pdf :: "nat \<Rightarrow> string \<Rightarrow> exn + pystr"
  post_chat :: "nat \<Rightarrow> string \<Rightarrow> pystr \<Rightarrow> pystr \<Rightarrow> exn + pystr"
  pick_models :: "nat \<Rightarrow> exn + string list"
  latex_run :: "nat \<Rightarrow> pystr \<Rightarrow> pystr + proc"
  decode_output :: "blob \<Rightarrow> pystr + pystr"
  str_lower :: "string \<Rightarrow> string"
  extract_body :: "pystr \<Rightarrow> pystr"
  sanitize_body :: "pystr \<Rightarrow> pystr"
  tex_to_text :: "pystr \<Rightarrow> pystr"
  build_user_prompt :: "pystr \<Rightarrow> bool \<Rightarrow> bool \<Rightarrow> bool \<Rightarrow> bool \<Rightarrow> pystr \<Rightarrow> pystr"
  text_to_tex_body_no_change :: "pystr \<Rightarrow> pystr"

section \<open>indexing.py\<close>

partial_function (option) chunk_loop :: "pystr \<Rightarrow> nat \<Rightarrow> nat \<Rightarrow> pystr list \<Rightarrow> pystr list option" where
  "chunk_loop t max_chars start chunks =
     (if start < length t
      then (let e = min (length t) (start + max_chars)
            in chunk_loop t max_chars e (chunks @ [take (e - start) (drop start t)]))
      else Some chunks)"

definition chunk_text :: "pystr \<Rightarrow> nat \<Rightarrow> pystr list option" where
  "chunk_text txt max_chars =
     (let t = strip txt in if t = [] then Some [] else chunk_loop t max_chars 0 [])"

definition delete_chunks :: "nat \<Rightarrow> string \<Rightarrow> world \<Rightarrow> world" where
  "delete_chunks did k w =
     w\<lparr>chunks_fts := filter (\<lambda>c. \<not> (c_doc_id c = did \<and> c_kind c = k)) (chunks_fts w)\<rparr>"

definition insert_chunk :: "nat \<Rightarrow> string \<Rightarrow> nat \<times> pystr \<Rightarrow> chunk" where
  "insert_chunk did k ic =
     \<lparr>c_doc_id = did, c_kind = k, chunk_id = str_nat (fst ic), content = snd ic\<rparr>"

definition fts_rebuild :: "nat \<Rightarrow> string \<Rightarrow> pystr \<Rightarrow> world \<Rightarrow> world option" where
  "fts_rebuild did k txt w =
     (let w1 = delete_chunks did k w in
      case chunk_text txt 1000 of
        None \<Rightarrow> None
      | Some rows \<Rightarrow>
          Some (w1\<lparr>chunks_fts := chunks_fts w1 @ map (insert_chunk did k) (enumerate 0 rows)\<rparr>))"

section \<open>Editor liveness (tasks.py)\<close>

text \<open>
  \<open>total_seconds()\<close> divides the microsecond count by \<open>10^6\<close> in floating point;
  the comparison with 120 is the comparison of the microsecond count with
  \<open>120 * 10^6\<close>. The clock is read only when the first two tests pass.
\<close>

definition editor_active :: "env \<Rightarrow> document \<Rightarrow> world \<Rightarrow> bool \<times> world" where
  "editor_active E doc w =
     (if \<not> editor_open doc then (False, w)
      else case editor_heartbeat_at doc of
        None \<Rightarrow> (False, w)
      | Some hb \<Rightarrow>
          (let age = utcnow E (io_count w) - hb
           in (age < 120 * 1000000, w\<lparr>io_count := io_count w + 1\<rparr>)))"

section \<open>Outcomes of a call\<close>

text \<open>
  A call returns a value, raises an exception, or does not return (the chunking loop
  with a window of 0).
\<close>

datatype 'a outcome = Ok 'a | Raise exn | Diverge

definition utc :: "env \<Rightarrow> world \<Rightarrow> int" where
  "utc E w = utcnow E (io_count w)"

definition tick :: "world \<Rightarrow> world" where
  "tick w = w\<lparr>io_count := Suc (io_count w)\<rparr>"

definition path_exists :: "world \<Rightarrow> string \<Rightarrow> bool" where
  "path_exists w p \<longleftrightarrow> p \<noteq> [] \<and> files w p \<noteq> None"

definition os_remove :: "string \<Rightarrow> world \<Rightarrow> world" where
  "os_remove p w = w\<lparr>files := (files w)(p := None)\<rparr>"

section \<open>latex.py\<close>

text \<open>\<open>s[-n:]\<close>: the last \<open>n\<close> characters, the whole string when it is shorter.\<close>

definition last_chars :: "nat \<Rightarrow> pystr \<Rightarrow> pystr" where
  "last_chars n s = drop (length s - n) s"

definition pass_count :: "settings \<Rightarrow> bool \<Rightarrow> nat" where
  "pass_count S toc =
     (let max_runs = max 1 (min 5 (latex_max_runs S));
          runs = (if toc then 2 else 1)
      in nat (min runs max_runs))"

text \<open>
  \<open>subprocess.run(cmd, stdout=PIPE, stderr=STDOUT, text=True)\<close>: it raises when the engine
  cannot be started or when its output does not decode, whatever the exit code; otherwise
  it returns the exit code and the decoded output. The third component is \<open>main.pdf\<close> in
  the scratch directory after the pass.
\<close>

definition subprocess_run :: "env \<Rightarrow> nat \<Rightarrow> pystr \<Rightarrow> exn + int \<times> pystr \<times> blob option" where
  "subprocess_run E n src =
     (case latex_run E n src of
        Inl m \<Rightarrow> Inl (OSError m)
      | Inr p \<Rightarrow>
          (case decode_output E (stdout_bytes p) of
             Inl m \<Rightarrow> Inl (UnicodeDecodeError m)
           | Inr out \<Rightarrow> Inr (returncode p, out, main_pdf p)))"

text \<open>
  The loop over the passes. The accumulator is \<open>last_out\<close> and the content of
  \<open>main.pdf\<close> in the scratch directory, which is fresh for every call.
\<close>

fun run_passes :: "env \<Rightarrow> pystr \<Rightarrow> nat \<Rightarrow> pystr \<times> blob option \<Rightarrow> world
    \<Rightarrow> (exn + pystr \<times> blob option) \<times> world" where
  "run_passes E src 0 acc w = (Inr acc, w)"
| "run_passes E src (Suc n) acc w =
     (let w1 = tick w in
      case subprocess_run E (io_count w) src of
        Inl e \<Rightarrow> (Inl e, w1)
      | Inr (rc, out, pdf) \<Rightarrow>
          (let last_out = last_chars 8000 out
           in if rc \<noteq> 0 then (Inl (LatexCompileError last_out), w1)
              else run_passes E src n (last_out, pdf) w1))"

definition compile_tex_to_pdf :: "env \<Rightarrow> settings \<Rightarrow> pystr \<Rightarrow> string \<Rightarrow> bool \<Rightarrow> world
    \<Rightarrow> unit outcome \<times> world" where
  "compile_tex_to_pdf E S src out_pdf_path toc w =
     (let w0 = w\<lparr>compile_log := compile_log w @ [src]\<rparr> in
      case run_passes E src (pass_count S toc) ([], None) w0 of
        (Inl e, w1) \<Rightarrow> (Raise e, w1)
      | (Inr (last_out, pdf), w1) \<Rightarrow>
          (case pdf of
             None \<Rightarrow>
               (Raise (LatexCompileError (lit ''PDF not produced. Output:'' @ [10] @ last_out)), w1)
           | Some b \<Rightarrow> (Ok (), w1\<lparr>files := (files w1)(out_pdf_path \<mapsto> b)\<rparr>)))"

section \<open>llm.py\<close>

definition strip_str :: "string \<Rightarrow> string" where
  "strip_str s = rev (dropWhile (\<lambda>c. isspace (of_char c)) (rev (dropWhile (\<lambda>c. isspace (of_char c)) s)))"

text \<open>
  The fallback loop. Both \<open>except\<close> branches log and continue, so they are one branch
  here; \<open>last_err or "LLM failed"\<close> is the fixed message when \<open>last_err\<close> is empty.
\<close>

fun try_models :: "env \<Rightarrow> pystr \<Rightarrow> pystr \<Rightarrow> string list \<Rightarrow> pystr \<Rightarrow> world
    \<Rightarrow> (pystr \<times> string) outcome \<times> world" where
  "try_models E sp up [] last_err w =
     (Raise (RuntimeError (if last_err \<noteq> [] then last_err else lit ''LLM failed'')), w)"
| "try_models E sp up (mid # rest) last_err w =
     (let w1 = (tick w)\<lparr>llm_log := llm_log w @ [(mid, sp, up)]\<rparr> in
      case post_chat E (io_count w) mid sp up of
        Inr out \<Rightarrow> (Ok (out, mid), w1)
      | Inl e \<Rightarrow> try_models E sp up rest (str_exn e) w1)"

definition model_candidates :: "env \<Rightarrow> settings \<Rightarrow> world \<Rightarrow> (exn + string list) \<times> world" where
  "model_candidates E S w =
     (let requested = strip_str (openrouter_model S) in
      if requested \<noteq> [] \<and> str_lower E requested \<noteq> ''auto'' then (Inr [requested], w)
      else (pick_models E (io_count w), tick w))"

definition call_llm_tex :: "env \<Rightarrow> settings \<Rightarrow> pystr \<Rightarrow> pystr \<Rightarrow> world
    \<Rightarrow> (pystr \<times> string) outcome \<times> world" where
  "call_llm_tex E S sp up w =
     (let provider = strip_str (str_lower E (llm_provider S)) in
      if provider = ''none'' then (Raise (RuntimeError (lit ''LLM_PROVIDER=none (disabled)'')), w)
      else if provider \<noteq> ''openrouter''
        then (Raise (RuntimeError (lit ''Unsupported LLM_PROVIDER: '' @ lit provider)), w)
      else if openrouter_api_key S = [] then (Raise (RuntimeError (lit ''OPENROUTER_API_KEY is empty'')), w)
      else case model_candidates E S w of
             (Inl e, w1) \<Rightarrow> (Raise e, w1)
           | (Inr cands, w1) \<Rightarrow> try_models E sp up (take 6 cands) [] w1)"

section \<open>tex_utils.py\<close>

definition preamble :: pystr where
  "preamble =
     [92, 100, 111, 99, 117, 109, 101, 110, 116, 99, 108, 97, 115, 115, 91, 49, 50,
     112, 116, 93, 123, 97, 114, 116, 105, 99, 108, 101, 125, 10, 92, 117, 115, 101,
     112, 97, 99, 107, 97, 103, 101, 91, 97, 52, 112, 97, 112, 101, 114, 44, 109, 97,
     114, 103, 105, 110, 61, 50, 46, 53, 99, 109, 93, 123, 103, 101, 111, 109, 101,
     116, 114, 121, 125, 10, 92, 117, 115, 101, 112, 97, 99, 107, 97, 103, 101, 123,
     102, 111, 110, 116, 115, 112, 101, 99, 125, 10, 92, 117, 115, 101, 112, 97, 99,
     107, 97, 103, 101, 123, 112, 111, 108, 121, 103, 108, 111, 115, 115, 105, 97, 125,
     10, 92, 115, 101, 116, 109, 97, 105, 110, 108, 97, 110, 103, 117, 97, 103, 101,
     123, 114, 117, 115, 115, 105, 97, 110, 125, 10, 92, 115, 101, 116, 111, 116, 104,
     101, 114, 108, 97, 110, 103, 117, 97, 103, 101, 123, 101, 110, 103, 108, 105, 115,
     104, 125, 10, 92, 115, 101, 116, 109, 97, 105, 110, 102, 111, 110, 116, 123, 68,
     101, 106, 97, 86, 117, 32, 83, 101, 114, 105, 102, 125, 10, 92, 117, 115, 101,
     112, 97, 99, 107, 97, 103, 101, 123, 109, 105, 99, 114, 111, 116, 121, 112, 101,
     125, 10, 92, 117, 115, 101, 112, 97, 99, 107, 97, 103, 101, 123, 115, 101, 116,
     115, 112, 97, 99, 101, 125, 10, 92, 115, 101, 116, 115, 116, 114, 101, 116, 99,
     104, 123, 49, 46, 49, 50, 125, 10, 92, 117, 115, 101, 112, 97, 99, 107, 97, 103,
     101, 123, 112, 97, 114, 115, 107, 105, 112, 125, 10, 92, 115, 101, 116, 108, 101,
     110, 103, 116, 104, 123, 92, 112, 97, 114, 105, 110, 100, 101, 110, 116, 125, 123,
     48, 112, 116, 125, 10, 92, 117, 115, 101, 112, 97, 99, 107, 97, 103, 101, 123,
     104, 121, 112, 101, 114, 114, 101, 102, 125, 10, 92, 104, 121, 112, 101, 114, 115,
     101, 116, 117, 112, 123, 99, 111, 108, 111, 114, 108, 105, 110, 107, 115, 61, 116,
     114, 117, 101, 44, 32, 108, 105, 110, 107, 99, 111, 108, 111, 114, 61, 98, 108,
     117, 101, 44, 32, 117, 114, 108, 99, 111, 108, 111, 114, 61, 98, 108, 117, 101,
     125, 10, 92, 117, 115, 101, 112, 97, 99, 107, 97, 103, 101, 123, 101, 110, 117,
     109, 105, 116, 101, 109, 125, 10, 92, 115, 101, 116, 108, 105, 115, 116, 123, 110,
     111, 115, 101, 112, 125, 10, 92, 117, 115, 101, 112, 97, 99, 107, 97, 103, 101,
     123, 98, 111, 111, 107, 109, 97, 114, 107, 125]"

definition toc_block :: pystr where
  "toc_block =
     [92, 116, 97, 98, 108, 101, 111, 102, 99, 111, 110, 116, 101, 110, 116, 115, 92,
     110, 101, 119, 112, 97, 103, 101]"

definition begin_document :: pystr where
  "begin_document =
     [10, 10, 92, 98, 101, 103, 105, 110, 123, 100, 111, 99, 117, 109, 101, 110, 116,
     125, 10]"

definition end_document :: pystr where
  "end_document =
     [10, 10, 92, 101, 110, 100, 123, 100, 111, 99, 117, 109, 101, 110, 116, 125, 10]"

definition make_full_tex :: "env \<Rightarrow> pystr \<Rightarrow> bool \<Rightarrow> pystr" where
  "make_full_tex E body toc =
     preamble @ begin_document @ (if toc then toc_block @ [10, 10] else [])
       @ sanitize_body E body @ end_document"

section \<open>tasks.py: rows, sessions and shared steps\<close>

definition and_then :: "'a outcome \<times> world \<Rightarrow> ('a \<Rightarrow> world \<Rightarrow> 'b outcome \<times> world) \<Rightarrow> 'b outcome \<times> world" where
  "and_then r f = (case r of (Ok x, w) \<Rightarrow> f x w | (Raise e, w) \<Rightarrow> (Raise e, w) | (Diverge, w) \<Rightarrow> (Diverge, w))"

definition get_document :: "world \<Rightarrow> nat \<Rightarrow> document option" where
  "get_document w did = find (\<lambda>d. d_id d = did) (documents w)"

definition update_document :: "nat \<Rightarrow> (document \<Rightarrow> document) \<Rightarrow> world \<Rightarrow> world" where
  "update_document did f w =
     w\<lparr>documents := map (\<lambda>d. if d_id d = did then f d else d) (documents w)\<rparr>"

definition first_version :: "world \<Rightarrow> nat \<Rightarrow> string \<Rightarrow> version option" where
  "first_version w did k = find (\<lambda>v. doc_id v = did \<and> kind v = k) (versions w)"

definition update_version :: "nat \<Rightarrow> (version \<Rightarrow> version) \<Rightarrow> world \<Rightarrow> world" where
  "update_version vid f w =
     w\<lparr>versions := map (\<lambda>v. if v_id v = vid then f v else v) (versions w)\<rparr>"

definition delete_version :: "nat \<Rightarrow> world \<Rightarrow> world" where
  "delete_version vid w = w\<lparr>versions := filter (\<lambda>v. v_id v \<noteq> vid) (versions w)\<rparr>"

text \<open>\<open>s.add(v)\<close>: the database assigns the next row id.\<close>

definition add_version :: "version \<Rightarrow> world \<Rightarrow> world" where
  "add_version v w =
     w\<lparr>versions := versions w @ [v\<lparr>v_id := next_version_id w\<rparr>],
       next_version_id := Suc (next_version_id w)\<rparr>"

text \<open>
  \<open>with db_session() as s\<close>: commit when the body returns, roll the tables back and
  re-raise when it raises. Files and calls to the outside are not rolled back.
\<close>

definition db_session :: "(world \<Rightarrow> 'a outcome \<times> world) \<Rightarrow> world \<Rightarrow> 'a outcome \<times> world" where
  "db_session body w =
     (case body w of
        (Raise e, w1) \<Rightarrow>
          (Raise e, w1\<lparr>documents := documents w, versions := versions w,
                       chunks_fts := chunks_fts w\<rparr>)
      | (Ok x, w1) \<Rightarrow> (Ok x, w1)
      | (Diverge, w1) \<Rightarrow> (Diverge, w1))"

definition generated_pdf_path :: "settings \<Rightarrow> nat \<Rightarrow> string \<Rightarrow> string" where
  "generated_pdf_path S did k = generated_dir S @ ''/doc_'' @ str_nat did @ ''_'' @ k @ ''.pdf''"

definition delete_version_files :: "version \<Rightarrow> world \<Rightarrow> world" where
  "delete_version_files v w = (if path_exists w (pdf_path v) then os_remove (pdf_path v) w else w)"

text \<open>The first session of every job; \<open>False\<close> when the document is missing and the job returns.\<close>

definition mark_processing :: "env \<Rightarrow> nat \<Rightarrow> world \<Rightarrow> bool \<times> world" where
  "mark_processing E did w =
     (case get_document w did of
        None \<Rightarrow> (False, w)
      | Some doc \<Rightarrow>
          (True, tick (update_document did
             (\<lambda>d. d\<lparr>status := ''processing'', last_error := None, d_updated_at := utc E w\<rparr>) w)))"

text \<open>The session of the \<open>except\<close> handler, with the message it stores.\<close>

definition mark_error :: "env \<Rightarrow> nat \<Rightarrow> pystr \<Rightarrow> world \<Rightarrow> world" where
  "mark_error E did msg w =
     (case get_document w did of
        None \<Rightarrow> w
      | Some doc \<Rightarrow>
          tick (update_document did
             (\<lambda>d. d\<lparr>status := ''error'', last_error := Some msg, d_updated_at := utc E w\<rparr>) w))"

section \<open>tasks.py: process_pdf_task\<close>

definition process_pdf_body :: "env \<Rightarrow> nat \<Rightarrow> world \<Rightarrow> unit outcome \<times> world" where
  "process_pdf_body E did w =
     (case get_document w did of
        None \<Rightarrow> (Ok (), w)
      | Some doc \<Rightarrow>
          (case extract_text_from_pdf E (io_count w) (original_path doc) of
             Inl e \<Rightarrow> (Raise e, tick w)
           | Inr t \<Rightarrow>
               (let w1 = tick w;
                    w2 = tick (update_document did
                           (\<lambda>d. d\<lparr>extracted_text := Some t, status := ''ready'',
                                  d_updated_at := utc E w1\<rparr>) w1)
                in case fts_rebuild did ''original'' t w2 of
                     None \<Rightarrow> (Diverge, w2)
                   | Some w3 \<Rightarrow> (Ok (), w3))))"

text \<open>The handler of \<open>process_pdf_task\<close> has no \<open>raise\<close>: the job returns normally.\<close>

definition process_pdf_task :: "env \<Rightarrow> nat \<Rightarrow> world \<Rightarrow> unit outcome \<times> world" where
  "process_pdf_task E did w =
     (case mark_processing E did w of
        (False, w1) \<Rightarrow> (Ok (), w1)
      | (True, w1) \<Rightarrow>
          (case db_session (process_pdf_body E did) w1 of
             (Raise e, w2) \<Rightarrow> (Ok (), mark_error E did (str_exn e) w2)
           | (Ok x, w2) \<Rightarrow> (Ok x, w2)
           | (Diverge, w2) \<Rightarrow> (Diverge, w2)))"

section \<open>tasks.py: transform_tex_task\<close>

definition system_prompt :: pystr where
  "system_prompt =
     [1058, 1099, 32, 1086, 1087, 1099, 1090, 1085, 1099, 1081, 32, 1088, 1077, 1076,
     1072, 1082, 1090, 1086, 1088, 32, 1076, 1086, 1082, 1091, 1084, 1077, 1085, 1090,
     1086, 1074, 46, 32, 1058, 1074, 1086, 1103, 32, 1079, 1072, 1076, 1072, 1095,
     1072, 32, 8212, 32, 1091, 1083, 1091, 1095, 1096, 1080, 1090, 1100, 32, 1090,
     1077, 1082, 1089, 1090, 32, 1089, 1086, 1075, 1083, 1072, 1089, 1085, 1086, 32,
     1090, 1088, 1077, 1073, 1086, 1074, 1072, 1085, 1080, 1103, 1084, 32, 1080, 32,
     1074, 1077, 1088, 1085, 1091, 1090, 1100, 32, 76, 97, 84, 101, 88, 32, 1076, 1086,
     1082, 1091, 1084, 1077, 1085, 1090, 46, 32, 1057, 1086, 1093, 1088, 1072, 1085,
     1103, 1081, 32, 1089, 1084, 1099, 1089, 1083, 32, 1080, 32, 1089, 1086, 1076,
     1077, 1088, 1078, 1072, 1085, 1080, 1077, 32, 1090, 1077, 1082, 1089, 1090, 1072,
     46, 32, 1053, 1077, 32, 1076, 1086, 1073, 1072, 1074, 1083, 1103, 1081, 32, 1074,
     1099, 1076, 1091, 1084, 1072, 1085, 1085, 1099, 1093, 32, 1092, 1072, 1082, 1090,
     1086, 1074, 46, 32, 1042, 1086, 1079, 1074, 1088, 1072, 1097, 1072, 1081, 32,
     1090, 1086, 1083, 1100, 1082, 1086, 32, 76, 97, 84, 101, 88, 46]"

definition repair_system :: pystr where
  "repair_system =
     [1048, 1089, 1087, 1088, 1072, 1074, 1100, 32, 76, 97, 84, 101, 88, 32, 1090,
     1072, 1082, 44, 32, 1095, 1090, 1086, 1073, 1099, 32, 1086, 1085, 32, 1082, 1086,
     1084, 1087, 1080, 1083, 1080, 1088, 1086, 1074, 1072, 1083, 1089, 1103, 46, 32,
     1053, 1077, 32, 1084, 1077, 1085, 1103, 1081, 32, 1089, 1084, 1099, 1089, 1083,
     32, 1090, 1077, 1082, 1089, 1090, 1072, 46, 32, 1042, 1077, 1088, 1085, 1080, 32,
     1090, 1086, 1083, 1100, 1082, 1086, 32, 1080, 1089, 1087, 1088, 1072, 1074, 1083,
     1077, 1085, 1085, 1099, 1081, 32, 76, 97, 84, 101, 88, 32, 1076, 1086, 1082, 1091,
     1084, 1077, 1085, 1090, 46]"

definition repair_head :: pystr where
  "repair_head =
     [1054, 1064, 1048, 1041, 1050, 1040, 32, 1050, 1054, 1052, 1055, 1048, 1051, 1071,
     1062, 1048, 1048, 58, 10]"

definition repair_mid :: pystr where
  "repair_mid =
     [10, 10, 1058, 1045, 1050, 1059, 1065, 1048, 1049, 32, 76, 97, 84, 101, 88, 58,
     10, 60, 60, 60, 10]"

definition repair_tail :: pystr where
  "repair_tail =
     [10, 62, 62, 62, 10]"

definition repair_user :: "exn \<Rightarrow> pystr \<Rightarrow> pystr" where
  "repair_user ce full_tex = repair_head @ str_exn ce @ repair_mid @ full_tex @ repair_tail"

text \<open>\<open>doc.extracted_text or ""\<close>, extracted afresh and cached when empty.\<close>

definition original_input :: "env \<Rightarrow> nat \<Rightarrow> document \<Rightarrow> world \<Rightarrow> pystr outcome \<times> world" where
  "original_input E did doc w =
     (let input_payload = (case extracted_text doc of None \<Rightarrow> [] | Some t \<Rightarrow> t) in
      if input_payload \<noteq> [] then (Ok input_payload, w)
      else case extract_text_from_pdf E (io_count w) (original_path doc) of
             Inl e \<Rightarrow> (Raise e, tick w)
           | Inr t \<Rightarrow> (Ok t, update_document did (\<lambda>d. d\<lparr>extracted_text := Some t\<rparr>) (tick w)))"

text \<open>The second session: the prompts, or \<open>None\<close> when the document is missing.\<close>

definition transform_prompts :: "env \<Rightarrow> nat \<Rightarrow> string \<Rightarrow> bool \<Rightarrow> bool \<Rightarrow> bool \<Rightarrow> pystr \<Rightarrow> world
    \<Rightarrow> (pystr \<times> pystr) option outcome \<times> world" where
  "transform_prompts E did base_kind toc_indexes structure spelling extra w =
     (case get_document w did of
        None \<Rightarrow> (Ok None, w)
      | Some doc \<Rightarrow>
          (let is_tex = (base_kind = ''draft'' \<or> base_kind = ''saved'');
               chosen =
                 (if base_kind = ''original''
                  then and_then (original_input E did doc w) (\<lambda>t w1. (Ok (t, is_tex), w1))
                  else case first_version w did base_kind of
                         Some v \<Rightarrow> (Ok (tex_source v, is_tex), w)
                       | None \<Rightarrow>
                           and_then (original_input E did doc w) (\<lambda>t w1. (Ok (t, False), w1)))
           in and_then chosen
                (\<lambda>(input_payload, is_tex') w1.
                   (Ok (Some (system_prompt,
                      build_user_prompt E input_payload is_tex' toc_indexes structure spelling extra)),
                    w1))))"

text \<open>
  Lines 130 to 148: compile, and on \<open>LatexCompileError\<close> one repair round whose own
  failures are not caught here.
\<close>

definition compile_with_repair :: "env \<Rightarrow> settings \<Rightarrow> nat \<Rightarrow> bool \<Rightarrow> pystr \<Rightarrow> world
    \<Rightarrow> pystr outcome \<times> world" where
  "compile_with_repair E S did toc_indexes full_tex w =
     (let out_pdf = generated_pdf_path S did ''draft'' in
      case compile_tex_to_pdf E S full_tex out_pdf toc_indexes w of
        (Ok u, w1) \<Rightarrow> (Ok full_tex, w1)
      | (Diverge, w1) \<Rightarrow> (Diverge, w1)
      | (Raise ce, w1) \<Rightarrow>
          (case ce of
             LatexCompileError m \<Rightarrow>
               and_then (call_llm_tex E S repair_system (repair_user ce full_tex) w1)
                 (\<lambda>(tex_fixed, mid) w2.
                    let body2 = extract_body E tex_fixed;
                        full_tex2 = make_full_tex E body2 toc_indexes
                    in and_then (compile_tex_to_pdf E S full_tex2 out_pdf toc_indexes w2)
                         (\<lambda>u w3. (Ok full_tex2, w3)))
           | _ \<Rightarrow> (Raise ce, w1)))"

definition upsert_draft :: "env \<Rightarrow> nat \<Rightarrow> pystr \<Rightarrow> string \<Rightarrow> pystr \<Rightarrow> world \<Rightarrow> world" where
  "upsert_draft E did full_tex out_pdf plain w =
     (case first_version w did ''draft'' of
        None \<Rightarrow>
          tick (tick (add_version
            \<lparr>v_id = 0, doc_id = did, kind = ''draft'', tex_source = full_tex, pdf_path = out_pdf,
             plain_text = plain, created_at = utc E w, updated_at = utc E (tick w)\<rparr> w))
      | Some v \<Rightarrow>
          tick (update_version (v_id v)
            (\<lambda>r. r\<lparr>tex_source := full_tex, pdf_path := out_pdf, plain_text := plain,
                   updated_at := utc E w\<rparr>) w))"

definition persist_draft :: "env \<Rightarrow> nat \<Rightarrow> pystr \<Rightarrow> string \<Rightarrow> world \<Rightarrow> unit outcome \<times> world" where
  "persist_draft E did full_tex out_pdf w =
     (let plain = tex_to_text E full_tex;
          w1 = upsert_draft E did full_tex out_pdf plain w
      in case fts_rebuild did ''draft'' plain w1 of
           None \<Rightarrow> (Diverge, w1)
         | Some w2 \<Rightarrow>
             (Ok (), tick (update_document did
                (\<lambda>d. d\<lparr>status := ''ready'', d_updated_at := utc E w2, last_error := None\<rparr>) w2)))"

text \<open>The editor is no longer active: the status goes back to ready, nothing else is written.\<close>

definition discard_result :: "env \<Rightarrow> nat \<Rightarrow> world \<Rightarrow> world" where
  "discard_result E did w =
     tick (update_document did (\<lambda>d. d\<lparr>status := ''ready'', d_updated_at := utc E w\<rparr>) w)"

text \<open>The last session of \<open>transform_tex_task\<close> and of \<open>normalize_original_task\<close>.\<close>

definition persist_if_active :: "env \<Rightarrow> settings \<Rightarrow> nat \<Rightarrow> pystr \<Rightarrow> world \<Rightarrow> unit outcome \<times> world" where
  "persist_if_active E S did full_tex w =
     (case get_document w did of
        None \<Rightarrow> (Ok (), w)
      | Some doc \<Rightarrow>
          (case editor_active E doc w of
             (False, w1) \<Rightarrow> (Ok (), discard_result E did w1)
           | (True, w1) \<Rightarrow>
               persist_draft E did full_tex (generated_pdf_path S did ''draft'') w1))"

text \<open>Lines 87 to 148: everything before the last session; \<open>None\<close> when the document is missing.\<close>

definition transform_compute :: "env \<Rightarrow> settings \<Rightarrow> nat \<Rightarrow> string \<Rightarrow> bool \<Rightarrow> bool \<Rightarrow> bool \<Rightarrow> pystr
    \<Rightarrow> world \<Rightarrow> pystr option outcome \<times> world" where
  "transform_compute E S did base_kind toc_indexes structure spelling extra w =
     and_then (db_session (transform_prompts E did base_kind toc_indexes structure spelling extra) w)
       (\<lambda>prompts w1.
          case prompts of
            None \<Rightarrow> (Ok None, w1)
          | Some (sp, up) \<Rightarrow>
              and_then (call_llm_tex E S sp up w1)
                (\<lambda>(tex_raw, model_used) w2.
                   let body = extract_body E tex_raw;
                       full_tex = make_full_tex E body toc_indexes
                   in and_then (compile_with_repair E S did toc_indexes full_tex w2)
                        (\<lambda>full_tex' w3. (Ok (Some full_tex'), w3))))"

definition transform_body :: "env \<Rightarrow> settings \<Rightarrow> nat \<Rightarrow> string \<Rightarrow> bool \<Rightarrow> bool \<Rightarrow> bool \<Rightarrow> pystr
    \<Rightarrow> world \<Rightarrow> unit outcome \<times> world" where
  "transform_body E S did base_kind toc_indexes structure spelling extra w =
     and_then (transform_compute E S did base_kind toc_indexes structure spelling extra w)
       (\<lambda>computed w1.
          case computed of
            None \<Rightarrow> (Ok (), w1)
          | Some full_tex \<Rightarrow> db_session (persist_if_active E S did full_tex) w1)"

definition transform_tex_task :: "env \<Rightarrow> settings \<Rightarrow> nat \<Rightarrow> string \<Rightarrow> bool \<Rightarrow> bool \<Rightarrow> bool \<Rightarrow> pystr
    \<Rightarrow> nat \<Rightarrow> world \<Rightarrow> unit outcome \<times> world" where
  "transform_tex_task E S did base_kind toc_indexes structure spelling extra user_id w =
     (case mark_processing E did w of
        (False, w1) \<Rightarrow> (Ok (), w1)
      | (True, w1) \<Rightarrow>
          (case transform_body E S did base_kind toc_indexes structure spelling extra w1 of
             (Raise e, w2) \<Rightarrow> (Raise e, mark_error E did (str_exn e) w2)
           | (Ok x, w2) \<Rightarrow> (Ok x, w2)
           | (Diverge, w2) \<Rightarrow> (Diverge, w2)))"

section \<open>tasks.py: normalize_original_task\<close>

definition normalize_input :: "env \<Rightarrow> nat \<Rightarrow> world \<Rightarrow> pystr option outcome \<times> world" where
  "normalize_input E did w =
     (case get_document w did of
        None \<Rightarrow> (Ok None, w)
      | Some doc \<Rightarrow>
          (case editor_active E doc w of
             (False, w1) \<Rightarrow> (Ok None, discard_result E did w1)
           | (True, w1) \<Rightarrow>
               (let t = strip (case extracted_text doc of None \<Rightarrow> [] | Some x \<Rightarrow> x) in
                if t \<noteq> [] then (Ok (Some t), w1)
                else case extract_text_from_pdf E (io_count w1) (original_path doc) of
                       Inl e \<Rightarrow> (Raise e, tick w1)
                     | Inr x \<Rightarrow>
                         (Ok (Some x),
                          update_document did (\<lambda>d. d\<lparr>extracted_text := Some x\<rparr>) (tick w1)))))"

definition normalize_body :: "env \<Rightarrow> settings \<Rightarrow> nat \<Rightarrow> world \<Rightarrow> unit outcome \<times> world" where
  "normalize_body E S did w =
     and_then (db_session (normalize_input E did) w)
       (\<lambda>input w1.
          case input of
            None \<Rightarrow> (Ok (), w1)
          | Some t \<Rightarrow>
              (let body = text_to_tex_body_no_change E t;
                   full_tex = make_full_tex E body False;
                   out_pdf = generated_pdf_path S did ''draft''
               in and_then (compile_tex_to_pdf E S full_tex out_pdf False w1)
                    (\<lambda>u w2. db_session (persist_if_active E S did full_tex) w2)))"

text \<open>Only this handler truncates the message, to 2000 characters.\<close>

definition normalize_original_task :: "env \<Rightarrow> settings \<Rightarrow> nat \<Rightarrow> nat \<Rightarrow> world \<Rightarrow> unit outcome \<times> world" where
  "normalize_original_task E S did user_id w =
     (case mark_processing E did w of
        (False, w1) \<Rightarrow> (Ok (), w1)
      | (True, w1) \<Rightarrow>
          (case normalize_body E S did w1 of
             (Raise e, w2) \<Rightarrow> (Raise e, mark_error E did (take 2000 (str_exn e)) w2)
           | (Ok x, w2) \<Rightarrow> (Ok x, w2)
           | (Diverge, w2) \<Rightarrow> (Diverge, w2)))"

section \<open>tasks.py: promote_draft_to_saved and discard_draft\<close>

text \<open>Lines 328 to 332: the prior saved row and its artifact file go first.\<close>

definition evict_saved :: "nat \<Rightarrow> world \<Rightarrow> world" where
  "evict_saved did w =
     (case first_version w did ''saved'' of
        None \<Rightarrow> w
      | Some old_saved \<Rightarrow> delete_version (v_id old_saved) (delete_version_files old_saved w))"

definition copy_artifact :: "string \<Rightarrow> string \<Rightarrow> world \<Rightarrow> world" where
  "copy_artifact src dst w =
     (if path_exists w src
      then (case files w src of None \<Rightarrow> w | Some b \<Rightarrow> w\<lparr>files := (files w)(dst \<mapsto> b)\<rparr>)
      else w)"

definition promote_body :: "env \<Rightarrow> settings \<Rightarrow> nat \<Rightarrow> world \<Rightarrow> unit outcome \<times> world" where
  "promote_body E S did w =
     (case get_document w did of
        None \<Rightarrow> (Ok (), w)
      | Some doc \<Rightarrow>
          (case first_version w did ''draft'' of
             None \<Rightarrow> (Ok (), w)
           | Some draft \<Rightarrow>
               (let w1 = evict_saved did w;
                    saved_pdf = generated_pdf_path S did ''saved'';
                    w2 = copy_artifact (pdf_path draft) saved_pdf w1;
                    w3 = tick (update_version (v_id draft)
                           (\<lambda>v. v\<lparr>kind := ''saved'', pdf_path := saved_pdf,
                                  updated_at := utc E w2\<rparr>) w2);
                    dp = generated_pdf_path S did ''draft'';
                    w4 = (if path_exists w3 dp then os_remove dp w3 else w3)
                in case fts_rebuild did ''saved'' (plain_text draft) w4 of
                     None \<Rightarrow> (Diverge, w4)
                   | Some w5 \<Rightarrow>
                       (Ok (), tick (update_document did
                          (\<lambda>d. d\<lparr>status := ''ready'', d_updated_at := utc E w5,
                                 last_error := None\<rparr>) w5)))))"

definition promote_draft_to_saved :: "env \<Rightarrow> settings \<Rightarrow> nat \<Rightarrow> world \<Rightarrow> unit outcome \<times> world" where
  "promote_draft_to_saved E S did w = db_session (promote_body E S did) w"

definition discard_body :: "settings \<Rightarrow> nat \<Rightarrow> world \<Rightarrow> unit outcome \<times> world" where
  "discard_body S did w =
     (case get_document w did of
        None \<Rightarrow> (Ok (), w)
      | Some doc \<Rightarrow>
          (let w1 = (case first_version w did ''draft'' of
                       None \<Rightarrow> w
                     | Some draft \<Rightarrow> delete_version (v_id draft) (delete_version_files draft w));
               p = generated_pdf_path S did ''draft'';
               w2 = (if path_exists w1 p then os_remove p w1 else w1)
           in (Ok (), delete_chunks did ''draft'' w2)))"

definition discard_draft :: "settings \<Rightarrow> nat \<Rightarrow> world \<Rightarrow> unit outcome \<times> world" where
  "discard_draft S did w = db_session (discard_body S did) w"

section \<open>Table constraints and derived states\<close>

text \<open>
  models.py: \<open>Version.id\<close> is the primary key, and \<open>uq_doc_kind\<close> allows at most one
  row per (document, kind).
\<close>

definition pk_versions :: "world \<Rightarrow> bool" where
  "pk_versions w \<longleftrightarrow> distinct (map v_id (versions w))"

definition uq_doc_kind :: "world \<Rightarrow> bool" where
  "uq_doc_kind w \<longleftrightarrow> distinct (map (\<lambda>v. (doc_id v, kind v)) (versions w))"

text \<open>
  The state \<open>promote_body\<close> reaches when it finds the document and a draft row;
  \<open>rows\<close> are the chunks of the draft's plain text.
\<close>

definition promoted :: "env \<Rightarrow> settings \<Rightarrow> nat \<Rightarrow> version \<Rightarrow> pystr list \<Rightarrow> world \<Rightarrow> world" where
  "promoted E S did draft rows w =
     (let w1 = evict_saved did w;
          w2 = copy_artifact (pdf_path draft) (generated_pdf_path S did ''saved'') w1;
          w3 = tick (update_version (v_id draft)
                 (\<lambda>v. v\<lparr>kind := ''saved'', pdf_path := generated_pdf_path S did ''saved'',
                        updated_at := utc E w2\<rparr>) w2);
          w4 = (if path_exists w3 (generated_pdf_path S did ''draft'')
                then os_remove (generated_pdf_path S did ''draft'') w3 else w3);
          w5 = w4\<lparr>chunks_fts :=
                  filter (\<lambda>c. \<not> (c_doc_id c = did \<and> c_kind c = ''saved'')) (chunks_fts w4)
                  @ map (insert_chunk did ''saved'') (enumerate 0 rows)\<rparr>
      in tick (update_document did
           (\<lambda>d. d\<lparr>status := ''ready'', d_updated_at := utc E w5, last_error := None\<rparr>) w5))"

text \<open>
  The relation between two states with the same Version rows, index and row-id counter
  and the same documents (by id).
\<close>

definition same_rows :: "world \<Rightarrow> world \<Rightarrow> bool" where
  "same_rows w w' \<longleftrightarrow> versions w' = versions w \<and> chunks_fts w' = chunks_fts w
     \<and> next_version_id w' = next_version_id w
     \<and> map d_id (documents w') = map d_id (documents w)"

section \<open>Example states\<close>

text \<open>Concrete documents, versions, states, settings and collaborators for the examples below.\<close>

definition w_empty :: world where
  "w_empty = \<lparr>documents = [], versions = [], next_version_id = 1, chunks_fts = [],
     files = Map.empty, io_count = 0, compile_log = [], llm_log = []\<rparr>"

definition example_doc :: document where
  "example_doc = \<lparr>d_id = 1, owner_id = 1, filename = ''a.pdf'', d_size = 10,
     original_path = ''orig/1.pdf'', extracted_text = Some [72, 105], status = ''ready'',
     last_error = None, editor_open = True, editor_heartbeat_at = Some 0,
     d_created_at = 0, d_updated_at = 0\<rparr>"

definition example_version :: version where
  "example_version = \<lparr>v_id = 1, doc_id = 1, kind = ''draft'', tex_source = [72, 105],
     pdf_path = ''gen/doc_1_draft.pdf'', plain_text = [72, 105], created_at = 0, updated_at = 0\<rparr>"

definition example_saved :: version where
  "example_saved = \<lparr>v_id = 1, doc_id = 1, kind = ''saved'', tex_source = [79, 108, 100],
     pdf_path = ''gen/doc_1_saved.pdf'', plain_text = [79, 108, 100], created_at = 0, updated_at = 0\<rparr>"

definition example_draft :: version where
  "example_draft = \<lparr>v_id = 2, doc_id = 1, kind = ''draft'', tex_source = [72, 105],
     pdf_path = ''gen/doc_1_draft.pdf'', plain_text = [72, 105], created_at = 5, updated_at = 5\<rparr>"

definition w_clean :: world where
  "w_clean = w_empty\<lparr>documents := [example_doc]\<rparr>"

definition w_draft :: world where
  "w_draft = w_empty\<lparr>documents := [example_doc], versions := [example_version],
     next_version_id := 2,
     chunks_fts := [\<lparr>c_doc_id = 1, c_kind = ''draft'', chunk_id = ''0'', content = [72, 105]\<rparr>],
     files := [''gen/doc_1_draft.pdf'' \<mapsto> [37]]\<rparr>"

definition w_stale :: world where
  "w_stale = w_empty\<lparr>documents := [example_doc],
     versions := [example_version\<lparr>kind := ''saved'', pdf_path := ''gen/doc_1_saved.pdf''\<rparr>],
     next_version_id := 2,
     chunks_fts := [\<lparr>c_doc_id = 1, c_kind = ''draft'', chunk_id = ''0'', content = [72, 105]\<rparr>,
                    \<lparr>c_doc_id = 1, c_kind = ''saved'', chunk_id = ''0'', content = [72, 105]\<rparr>],
     files := [''gen/doc_1_saved.pdf'' \<mapsto> [37]], io_count := 2\<rparr>"

definition w_both :: world where
  "w_both = w_empty\<lparr>documents := [example_doc], versions := [example_saved, example_draft],
     next_version_id := 3,
     chunks_fts := [\<lparr>c_doc_id = 1, c_kind = ''saved'', chunk_id = ''0'', content = [79, 108, 100]\<rparr>,
                    \<lparr>c_doc_id = 1, c_kind = ''draft'', chunk_id = ''0'', content = [72, 105]\<rparr>],
     files := [''gen/doc_1_saved.pdf'' \<mapsto> [1], ''gen/doc_1_draft.pdf'' \<mapsto> [2]]\<rparr>"

definition processing_doc :: document where
  "processing_doc = example_doc\<lparr>status := ''processing'', last_error := None, d_updated_at := 200000000\<rparr>"

definition example_settings :: settings where
  "example_settings = \<lparr>generated_dir = ''gen'', llm_provider = ''openrouter'',
     openrouter_api_key = ''key'', openrouter_model = ''auto'', latex_max_runs = 2\<rparr>"

definition example_env :: env where
  "example_env = \<lparr>utcnow = (\<lambda>n. 0), extract_text_from_pdf = (\<lambda>n p. Inr [72, 105]),
     post_chat = (\<lambda>n m s u. Inr [120]), pick_models = (\<lambda>n. Inr [''m1'', ''m2'']),
     latex_run = (\<lambda>n s. Inr \<lparr>returncode = 0, stdout_bytes = [], main_pdf = Some [37]\<rparr>),
     decode_output = (\<lambda>b. Inr b),
     str_lower = (\<lambda>s. s), extract_body = (\<lambda>s. s), sanitize_body = (\<lambda>s. s),
     tex_to_text = (\<lambda>s. s), build_user_prompt = (\<lambda>s a b c d e. s),
     text_to_tex_body_no_change = (\<lambda>s. s)\<rparr>"

definition failing_latex :: "nat \<Rightarrow> pystr \<Rightarrow> pystr + proc" where
  "failing_latex n s = Inr \<lparr>returncode = 1, stdout_bytes = [101], main_pdf = None\<rparr>"



text \<open>An engine that exits 1 with the byte \<open>0xD0\<close> as output, which does not decode.\<close>

definition garbled_latex :: "nat \<Rightarrow> pystr \<Rightarrow> pystr + proc" where
  "garbled_latex n s = Inr \<lparr>returncode = 1, stdout_bytes = [208], main_pdf = None\<rparr>"

definition strict_decode :: "blob \<Rightarrow> pystr + pystr" where
  "strict_decode b = (if \<forall>c \<in> set b. c < 128 then Inr b else Inl [117, 116, 102])"

definition garbled_env :: env where
  "garbled_env = example_env\<lparr>latex_run := garbled_latex, decode_output := strict_decode\<rparr>"

definition flaky_chat :: "nat \<Rightarrow> string \<Rightarrow> pystr \<Rightarrow> pystr \<Rightarrow> exn + pystr" where
  "flaky_chat n m s u = (if n = 1 then Inl (RuntimeError [101]) else Inr [120])"

definition failing_chat :: "nat \<Rightarrow> string \<Rightarrow> pystr \<Rightarrow> pystr \<Rightarrow> exn + pystr" where
  "failing_chat n m s u = Inl (RuntimeError [101, n])"

definition mute_chat :: "nat \<Rightarrow> string \<Rightarrow> pystr \<Rightarrow> pystr \<Rightarrow> exn + pystr" where
  "mute_chat n m s u = Inl (OtherError [])"

definition long_message :: pystr where
  "long_message = replicate 2001 120"

definition renaming_env :: env where
  "renaming_env = example_env\<lparr>tex_to_text := (\<lambda>s. [78, 101, 119])\<rparr>"

definition stale_env :: env where
  "stale_env = example_env\<lparr>utcnow := (\<lambda>n. 200000000)\<rparr>"

definition broken_latex_env :: env where
  "broken_latex_env = example_env\<lparr>latex_run := failing_latex\<rparr>"

text \<open>A rewrite service that answers the request numbered 2 and fails on every other one.\<close>

definition one_answer_chat :: "nat \<Rightarrow> string \<Rightarrow> pystr \<Rightarrow> pystr \<Rightarrow> exn + pystr" where
  "one_answer_chat n m s u = (if n = 2 then Inr [120] else Inl (RuntimeError [101]))"

definition unrepairable_env :: env where
  "unrepairable_env = example_env\<lparr>latex_run := failing_latex, post_chat := one_answer_chat\<rparr>"

definition unreadable_env :: env where
  "unreadable_env = example_env\<lparr>extract_text_from_pdf := (\<lambda>n p. Inl (OtherError long_message))\<rparr>"

definition offline_env :: env where
  "offline_env = example_env\<lparr>post_chat := (\<lambda>n m s u. Inl (OtherError long_message))\<rparr>"

section \<open>Search-index chunking\<close>

lemma div_step: "0 < (m::nat) \<Longrightarrow> a = x + m \<Longrightarrow> a div m = Suc (x div m)"
  using div_add_self2[of m x] by simp

lemma chunk_loop_spec:
  assumes m: "0 < m"
  shows "start \<le> length t \<Longrightarrow>
    \<exists>cs. chunk_loop t m start acc = Some (acc @ cs) \<and> concat cs = drop start t
       \<and> length cs = (length t - start + m - 1) div m
       \<and> (\<forall>i<length cs. length (cs ! i) = min m (length t - start - m * i))"
proof (induction "length t - start" arbitrary: start acc rule: less_induct)
  case less
  show ?case
  proof (cases "start < length t")
    case False
    with less.prems have "start = length t" by simp
    with m show ?thesis by (subst chunk_loop.simps) simp
  next
    case True
    define e where "e = min (length t) (start + m)"
    define c where "c = take (e - start) (drop start t)"
    have e1: "start < e" "e \<le> length t" using True m by (auto simp: e_def)
    then have "length t - e < length t - start" by arith
    from less.hyps[OF this e1(2), of "acc @ [c]"] obtain cs where
      cs: "chunk_loop t m e (acc @ [c]) = Some ((acc @ [c]) @ cs)" "concat cs = drop e t"
        "length cs = (length t - e + m - 1) div m"
        "\<forall>i<length cs. length (cs ! i) = min m (length t - e - m * i)" by blast
    have step: "chunk_loop t m start acc = chunk_loop t m e (acc @ [c])"
      using True by (subst chunk_loop.simps) (simp add: e_def c_def Let_def)
    have A: "chunk_loop t m start acc = Some (acc @ (c # cs))" using step cs(1) by simp
    have "drop e t = drop (e - start) (drop start t)" using e1 by simp
    then have "c @ drop e t = drop start t" unfolding c_def by (simp only: append_take_drop_id)
    then have B: "concat (c # cs) = drop start t" using cs(2) by simp
    have lc: "length c = min m (length t - start)" using e1 by (auto simp: c_def e_def)
    have C: "length (c # cs) = (length t - start + m - 1) div m"
    proof (cases "start + m \<le> length t")
      case T: True
      then have "e = start + m" by (simp add: e_def)
      then have "length t - start + m - 1 = (length t - e + m - 1) + m" using T m by arith
      then have "(length t - start + m - 1) div m = Suc ((length t - e + m - 1) div m)"
        by (rule div_step[OF m])
      then show ?thesis using cs(3) by simp
    next
      case F: False
      then have ee: "e = length t" by (simp add: e_def)
      then have "length cs = 0" using cs(3) m by simp
      moreover have "(length t - start + m - 1) div m = 1"
      proof -
        have "m \<le> length t - start + m - 1" "length t - start + m - 1 < 2 * m" using F True m by arith+
        then show ?thesis using m
          by (metis Suc_1 div_nat_eqI lambda_one mult.commute mult_Suc)
      qed
      ultimately show ?thesis by simp
    qed
    have D: "\<forall>i<length (c # cs). length ((c # cs) ! i) = min m (length t - start - m * i)"
    proof (intro allI impI)
      fix i assume i: "i < length (c # cs)"
      show "length ((c # cs) ! i) = min m (length t - start - m * i)"
      proof (cases i)
        case 0 then show ?thesis using lc by simp
      next
        case (Suc j)
        then have j: "j < length cs" using i by simp
        then have ne: "length cs \<noteq> 0" by (cases cs) simp_all
        have "start + m \<le> length t"
        proof (rule ccontr)
          assume "\<not> start + m \<le> length t"
          then have "e = length t" by (simp add: e_def)
          then have "length cs = 0" using cs(3) m by simp
          with ne show False by simp
        qed
        then have "e = start + m" by (simp add: e_def)
        then have "length t - e - m * j = length t - start - m * Suc j" by simp
        then show ?thesis using cs(4) j Suc by simp
      qed
    qed
    show ?thesis using A B C D by blast
  qed
qed

lemma chunk_text_spec:
  "\<exists>rows. chunk_text txt 1000 = Some rows \<and> concat rows = strip txt
     \<and> length rows = (length (strip txt) + 999) div 1000
     \<and> (\<forall>i<length rows. length (rows ! i) = min 1000 (length (strip txt) - 1000 * i))"
proof (cases "strip txt = []")
  case True
  then show ?thesis by (simp add: chunk_text_def)
next
  case False
  from chunk_loop_spec[of 1000 0 "strip txt" "[]"] obtain cs where
    "chunk_loop (strip txt) 1000 0 [] = Some ([] @ cs)" "concat cs = drop 0 (strip txt)"
    "length cs = (length (strip txt) - 0 + 1000 - 1) div 1000"
    "\<forall>i<length cs. length (cs ! i) = min 1000 (length (strip txt) - 0 - 1000 * i)"
    by auto
  then show ?thesis using False by (simp add: chunk_text_def)
qed

lemma full_chunks:
  assumes "n = (L + 999) div 1000" "i + 1 < n"
  shows "min 1000 (L - 1000 * i) = (1000::nat)"
proof -
  have "1000 * (n - 1) < L" using assms by arith
  moreover have "1000 * (i + 1) \<le> 1000 * (n - 1)" using assms by simp
  ultimately show ?thesis by simp
qed

lemma last_chunk:
  assumes "n = (L + 999) div 1000" "i + 1 = n"
  shows "min 1000 (L - 1000 * i) = L - 1000 * i \<and> 0 < L - 1000 * (i::nat)"
  using assms by arith

text \<open>
  C4 (as amended): \<open>chunk_text\<close> strips the text first. \<open>fts_rebuild\<close> deletes the
  chunks indexed for the (document, kind) pair and then inserts, in order and numbered
  from 0, \<open>ceil(L/1000)\<close> chunks where \<open>L\<close> is the length of the stripped text; every
  chunk but the last has 1000 characters, none is empty, and their concatenation is the
  stripped text.
\<close>

theorem fts_rebuild_chunks:
  "\<exists>rows w'. chunk_text txt 1000 = Some rows \<and> fts_rebuild did k txt w = Some w'
     \<and> concat rows = strip txt
     \<and> length rows = (length (strip txt) + 999) div 1000
     \<and> (\<forall>i<length rows. length (rows ! i) =
           (if i + 1 < length rows then 1000 else length (strip txt) - 1000 * i)
           \<and> 0 < length (rows ! i))
     \<and> chunks_fts w' = filter (\<lambda>c. \<not> (c_doc_id c = did \<and> c_kind c = k)) (chunks_fts w)
          @ map (insert_chunk did k) (enumerate 0 rows)
     \<and> map content (filter (\<lambda>c. c_doc_id c = did \<and> c_kind c = k) (chunks_fts w')) = rows
     \<and> map chunk_id (filter (\<lambda>c. c_doc_id c = did \<and> c_kind c = k) (chunks_fts w'))
          = map str_nat [0..<length rows]"
proof -
  from chunk_text_spec[of "txt"] obtain rows where
    r: "chunk_text txt 1000 = Some rows" "concat rows = strip txt"
       "length rows = (length (strip txt) + 999) div 1000"
       "\<forall>i<length rows. length (rows ! i) = min 1000 (length (strip txt) - 1000 * i)"
    by blast
  define w' where "w' = w\<lparr>chunks_fts := filter (\<lambda>c. \<not> (c_doc_id c = did \<and> c_kind c = k)) (chunks_fts w)
          @ map (insert_chunk did k) (enumerate 0 rows)\<rparr>"
  have f: "fts_rebuild did k txt w = Some w'"
    by (simp add: fts_rebuild_def r(1) delete_chunks_def w'_def)
  have sz: "\<forall>i<length rows. length (rows ! i) =
           (if i + 1 < length rows then 1000 else length (strip txt) - 1000 * i)
           \<and> 0 < length (rows ! i)"
  proof (intro allI impI)
    fix i assume i: "i < length rows"
    show "length (rows ! i) =
           (if i + 1 < length rows then 1000 else length (strip txt) - 1000 * i)
           \<and> 0 < length (rows ! i)"
    proof (cases "i + 1 < length rows")
      case True
      with full_chunks[OF r(3) True] r(4) i show ?thesis by simp
    next
      case False
      then have "i + 1 = length rows" using i by simp
      with last_chunk[OF r(3) this] r(4) i False show ?thesis by simp
    qed
  qed
  have sel: "filter (\<lambda>c. c_doc_id c = did \<and> c_kind c = k) (map (insert_chunk did k) xs)
        = map (insert_chunk did k) xs" for xs
    by (induction xs) (simp_all add: insert_chunk_def)
  have flt: "filter (\<lambda>c. c_doc_id c = did \<and> c_kind c = k) (chunks_fts w')
       = map (insert_chunk did k) (enumerate 0 rows)"
    by (simp add: w'_def sel)
  have c1: "map content (map (insert_chunk did k) (enumerate 0 rows)) = rows"
    by (simp add: insert_chunk_def comp_def)
  have c2: "map chunk_id (map (insert_chunk did k) (enumerate 0 rows)) = map str_nat [0..<length rows]"
    by (simp add: insert_chunk_def comp_def enumerate_eq_zip)
       (metis (no_types, lifting) ext length_upt map_fst_zip map_map comp_def diff_zero)
  show ?thesis using r f sz flt c1 c2 by (auto simp: w'_def)
qed

theorem fts_rebuild_chunks_witness:
  "\<exists>rows w'. chunk_text [32, 97, 98] 1000 = Some rows
     \<and> fts_rebuild 1 ''draft'' [32, 97, 98] w_empty = Some w'
     \<and> concat rows = [97, 98] \<and> length rows = 1
     \<and> (0 < length rows \<and> length (rows ! 0) = 2)
     \<and> map content (filter (\<lambda>c. c_doc_id c = 1 \<and> c_kind c = ''draft'') (chunks_fts w')) = rows"
proof -
  have s: "strip [32, 97, 98] = [97, 98]" by (simp add: strip_def isspace_def)
  from fts_rebuild_chunks[of "[32, 97, 98]" 1 "''draft''" w_empty]
  obtain rows w' where h: "chunk_text [32, 97, 98] 1000 = Some rows"
     "fts_rebuild 1 ''draft'' [32, 97, 98] w_empty = Some w'"
     "concat rows = strip [32, 97, 98]"
     "length rows = (length (strip [32, 97, 98]) + 999) div 1000"
     "\<forall>i<length rows. length (rows ! i) =
           (if i + 1 < length rows then 1000 else length (strip [32, 97, 98]) - 1000 * i)
           \<and> 0 < length (rows ! i)"
     "map content (filter (\<lambda>c. c_doc_id c = 1 \<and> c_kind c = ''draft'') (chunks_fts w')) = rows"
    by blast
  have l: "length rows = 1" using h(4) by (simp add: s)
  then have "length (rows ! 0) = 2" using h(5) by (simp add: s)
  moreover have "rows \<noteq> []" using l by auto
  ultimately show ?thesis using h l by (simp add: s)
qed

text \<open>
  C4 as stated fails on text with surrounding whitespace: for \<open>" a"\<close> (length 2) the only
  chunk is \<open>"a"\<close>, and for \<open>" "\<close> (length 1) no chunk is inserted although
  \<open>ceil(1/1000) = 1\<close>.
\<close>

theorem chunk_text_strips_counterexample:
  "chunk_text [32, 97] 1000 = Some [[97]] \<and> concat [[97]] \<noteq> [32, 97::nat]
   \<and> map content (chunks_fts (the (fts_rebuild 1 ''draft'' [32, 97] w_empty))) = [[97]]
   \<and> chunk_text [32] 1000 = Some [] \<and> (length [32::nat] + 999) div 1000 = (1::nat)"
  by (simp add: chunk_text_def strip_def isspace_def chunk_loop.simps fts_rebuild_def
       delete_chunks_def w_empty_def insert_chunk_def)

section \<open>Editor liveness\<close>

text \<open>
  C7: the editing session is active exactly when \<open>editor_open\<close> is set, a heartbeat is
  present and its age is strictly below 120 seconds.
\<close>

theorem editor_active_iff:
  "fst (editor_active E doc w) \<longleftrightarrow>
     editor_open doc \<and>
     (\<exists>hb. editor_heartbeat_at doc = Some hb \<and> utcnow E (io_count w) - hb < 120 * 1000000)"
  by (simp add: editor_active_def Let_def split: option.splits)

text \<open>Heartbeat ages of 119 s, 121 s and exactly 120 s: active, inactive, inactive.\<close>

theorem editor_active_iff_witness:
  "fst (editor_active (example_env\<lparr>utcnow := (\<lambda>n. 119000000)\<rparr>) example_doc w_empty)
   \<and> \<not> fst (editor_active (example_env\<lparr>utcnow := (\<lambda>n. 121000000)\<rparr>) example_doc w_empty)
   \<and> \<not> fst (editor_active (example_env\<lparr>utcnow := (\<lambda>n. 120000000)\<rparr>) example_doc w_empty)"
  using editor_active_iff[of "example_env\<lparr>utcnow := (\<lambda>n. 119000000)\<rparr>" example_doc w_empty]
    editor_active_iff[of "example_env\<lparr>utcnow := (\<lambda>n. 121000000)\<rparr>" example_doc w_empty]
    editor_active_iff[of "example_env\<lparr>utcnow := (\<lambda>n. 120000000)\<rparr>" example_doc w_empty]
  by (simp add: example_doc_def example_env_def)

section \<open>The compiler adapter\<close>













section \<open>The rewrite service\<close>

lemma try_models_all_fail:
  "(\<forall>i<length cs. isl (post_chat E (io_count w + i) (cs ! i) sp up)) \<Longrightarrow>
   try_models E sp up cs le w =
     (Raise (RuntimeError
        (let m = (if cs = [] then le
                  else str_exn (projl (post_chat E (io_count w + (length cs - 1)) (cs ! (length cs - 1)) sp up)))
         in if m \<noteq> [] then m else lit ''LLM failed'')),
      w\<lparr>io_count := io_count w + length cs,
        llm_log := llm_log w @ map (\<lambda>m. (m, sp, up)) cs\<rparr>)"
proof (induction cs arbitrary: w le)
  case Nil
  then show ?case by simp
next
  case (Cons c cs)
  let ?w1 = "(tick w)\<lparr>llm_log := llm_log w @ [(c, sp, up)]\<rparr>"
  from Cons.prems have h0: "isl (post_chat E (io_count w) c sp up)" by force
  then obtain e where e: "post_chat E (io_count w) c sp up = Inl e" by (auto simp: isl_def)
  have r: "\<forall>i<length cs. isl (post_chat E (io_count ?w1 + i) (cs ! i) sp up)"
  proof (intro allI impI)
    fix i assume "i < length cs"
    then have "Suc i < length (c # cs)" by simp
    then have "isl (post_chat E (io_count w + Suc i) ((c # cs) ! Suc i) sp up)" using Cons.prems by blast
    then show "isl (post_chat E (io_count ?w1 + i) (cs ! i) sp up)" by (simp add: tick_def)
  qed
  have step: "try_models E sp up (c # cs) le w = try_models E sp up cs (str_exn e) ?w1"
    using e by (simp add: Let_def)
  show ?case
  proof (cases "cs = []")
    case True
    then show ?thesis using e by (simp add: Let_def tick_def)
  next
    case False
    then have i1: "(c # cs) ! (length (c # cs) - 1) = cs ! (length cs - 1)"
      by (cases cs) simp_all
    have i2: "io_count w + (length (c # cs) - 1) = io_count ?w1 + (length cs - 1)"
      using False by (cases cs) (simp_all add: tick_def)
    have i3: "io_count w + length (c # cs) = io_count ?w1 + length cs" by (simp add: tick_def)
    have i4: "?w1\<lparr>io_count := io_count ?w1 + length cs,
        llm_log := llm_log ?w1 @ map (\<lambda>m. (m, sp, up)) cs\<rparr>
       = w\<lparr>io_count := io_count w + length (c # cs),
        llm_log := llm_log w @ map (\<lambda>m. (m, sp, up)) (c # cs)\<rparr>"
      by (simp add: tick_def)
    show ?thesis
      unfolding step Cons.IH[OF r, of "str_exn e"] i1 i2 i4 using False by simp
  qed
qed

lemma try_models_first_ok:
  "k < length cs \<Longrightarrow> post_chat E (io_count w + k) (cs ! k) sp up = Inr out \<Longrightarrow>
   (\<forall>j<k. isl (post_chat E (io_count w + j) (cs ! j) sp up)) \<Longrightarrow>
   try_models E sp up cs le w =
     (Ok (out, cs ! k),
      w\<lparr>io_count := io_count w + Suc k,
        llm_log := llm_log w @ map (\<lambda>m. (m, sp, up)) (take (Suc k) cs)\<rparr>)"
proof (induction cs arbitrary: w le k)
  case Nil
  then show ?case by simp
next
  case (Cons c cs)
  let ?w1 = "(tick w)\<lparr>llm_log := llm_log w @ [(c, sp, up)]\<rparr>"
  show ?case
  proof (cases k)
    case 0
    then show ?thesis using Cons.prems by (simp add: Let_def tick_def)
  next
    case (Suc k')
    have "isl (post_chat E (io_count w + 0) ((c # cs) ! 0) sp up)" using Cons.prems(3) Suc by blast
    then obtain e where e: "post_chat E (io_count w) c sp up = Inl e" by (auto simp: isl_def)
    have a: "k' < length cs" using Cons.prems(1) Suc by simp
    have b: "post_chat E (io_count ?w1 + k') (cs ! k') sp up = Inr out"
      using Cons.prems(2) Suc by (simp add: tick_def)
    have c: "\<forall>j<k'. isl (post_chat E (io_count ?w1 + j) (cs ! j) sp up)"
    proof (intro allI impI)
      fix j assume "j < k'"
      then have "Suc j < k" using Suc by simp
      then have "isl (post_chat E (io_count w + Suc j) ((c # cs) ! Suc j) sp up)" using Cons.prems(3) by blast
      then show "isl (post_chat E (io_count ?w1 + j) (cs ! j) sp up)" by (simp add: tick_def)
    qed
    show ?thesis using Cons.IH[OF a b c, of "str_exn e"] e Suc by (simp add: Let_def tick_def)
  qed
qed

text \<open>
  C8 (as amended): once the provider checks pass and the candidate list is obtained,
  \<open>call_llm_tex\<close> tries the first six candidates in order. It returns the answer of
  the first candidate that succeeds, whatever the earlier failures were; when every
  attempted candidate fails it raises \<open>RuntimeError\<close> with the message of the last
  failure, or with \<open>LLM failed\<close> when that message is empty or no candidate was tried.
\<close>

theorem call_llm_tex_fallback:
  assumes "strip_str (str_lower E (llm_provider S)) = ''openrouter''"
    and "openrouter_api_key S \<noteq> []"
    and "model_candidates E S w = (Inr cands, w1)"
  shows "length (take 6 cands) \<le> 6
    \<and> (\<forall>k out. k < length (take 6 cands)
          \<and> post_chat E (io_count w1 + k) (take 6 cands ! k) sp up = Inr out
          \<and> (\<forall>j<k. isl (post_chat E (io_count w1 + j) (take 6 cands ! j) sp up)) \<longrightarrow>
          call_llm_tex E S sp up w =
            (Ok (out, take 6 cands ! k),
             w1\<lparr>io_count := io_count w1 + Suc k,
                llm_log := llm_log w1 @ map (\<lambda>m. (m, sp, up)) (take (Suc k) (take 6 cands))\<rparr>))
    \<and> ((\<forall>i<length (take 6 cands). isl (post_chat E (io_count w1 + i) (take 6 cands ! i) sp up)) \<longrightarrow>
          call_llm_tex E S sp up w =
            (Raise (RuntimeError
               (let m = (if take 6 cands = [] then []
                         else str_exn (projl (post_chat E (io_count w1 + (length (take 6 cands) - 1))
                                 (take 6 cands ! (length (take 6 cands) - 1)) sp up)))
                in if m \<noteq> [] then m else lit ''LLM failed'')),
             w1\<lparr>io_count := io_count w1 + length (take 6 cands),
                llm_log := llm_log w1 @ map (\<lambda>m. (m, sp, up)) (take 6 cands)\<rparr>))"
proof -
  have c: "call_llm_tex E S sp up w = try_models E sp up (take 6 cands) [] w1"
    using assms by (simp add: call_llm_tex_def Let_def)
  show ?thesis
    unfolding c using try_models_first_ok[of _ "take 6 cands" E w1 sp up _ "[]"]
      try_models_all_fail[of "take 6 cands" E w1 sp up "[]"]
    by (intro conjI allI impI) (simp, blast, blast)
qed

lemma strip_str_openrouter: "strip_str ''openrouter'' = ''openrouter''"
  by (simp add: strip_str_def isspace_def)

lemma strip_str_auto: "strip_str ''auto'' = ''auto''"
  by (simp add: strip_str_def isspace_def)

lemma example_candidates:
  "str_lower E = (\<lambda>s. s) \<Longrightarrow> pick_models E = (\<lambda>n. Inr [''m1'', ''m2'']) \<Longrightarrow>
   model_candidates E example_settings w_empty = (Inr [''m1'', ''m2''], tick w_empty)"
  by (simp add: model_candidates_def example_settings_def strip_str_auto)

text \<open>Two candidates: the first fails and the second answers; both fail.\<close>

theorem call_llm_tex_fallback_witness:
  "call_llm_tex (example_env\<lparr>post_chat := flaky_chat\<rparr>) example_settings [1] [2] w_empty
     = (Ok ([120], ''m2''),
        w_empty\<lparr>io_count := 3, llm_log := [(''m1'', [1], [2]), (''m2'', [1], [2])]\<rparr>)
   \<and> call_llm_tex (example_env\<lparr>post_chat := failing_chat\<rparr>) example_settings [1] [2] w_empty
     = (Raise (RuntimeError [101, 2]),
        w_empty\<lparr>io_count := 3, llm_log := [(''m1'', [1], [2]), (''m2'', [1], [2])]\<rparr>)"
proof -
  have p: "strip_str (str_lower E (llm_provider example_settings)) = ''openrouter''"
    if "str_lower E = (\<lambda>s. s)" for E
    using that by (simp add: example_settings_def strip_str_openrouter)
  have k: "openrouter_api_key example_settings \<noteq> []" by (simp add: example_settings_def)
  let ?E1 = "example_env\<lparr>post_chat := flaky_chat\<rparr>"
  let ?E2 = "example_env\<lparr>post_chat := failing_chat\<rparr>"
  have c1: "model_candidates ?E1 example_settings w_empty = (Inr [''m1'', ''m2''], tick w_empty)"
    by (rule example_candidates) (simp_all add: example_env_def)
  have c2: "model_candidates ?E2 example_settings w_empty = (Inr [''m1'', ''m2''], tick w_empty)"
    by (rule example_candidates) (simp_all add: example_env_def)
  have 1: "call_llm_tex ?E1 example_settings [1] [2] w_empty
     = (Ok ([120], ''m2''),
        w_empty\<lparr>io_count := 3, llm_log := [(''m1'', [1], [2]), (''m2'', [1], [2])]\<rparr>)"
    using call_llm_tex_fallback[OF p k c1, where sp="[1]" and up="[2]", THEN conjunct2, THEN conjunct1,
        rule_format, of 1 "[120]"]
    by (simp add: example_env_def flaky_chat_def tick_def w_empty_def)
  have 2: "call_llm_tex ?E2 example_settings [1] [2] w_empty
     = (Raise (RuntimeError [101, 2]),
        w_empty\<lparr>io_count := 3, llm_log := [(''m1'', [1], [2]), (''m2'', [1], [2])]\<rparr>)"
    using call_llm_tex_fallback[OF p k c2, where sp="[1]" and up="[2]", THEN conjunct2, THEN conjunct2]
    by (simp add: example_env_def failing_chat_def tick_def w_empty_def)
  show ?thesis using 1 2 by simp
qed

text \<open>
  C8 as stated fails when the last failure has an empty message: the error raised carries
  \<open>LLM failed\<close> instead.
\<close>

theorem call_llm_tex_empty_message_counterexample:
  "call_llm_tex (example_env\<lparr>post_chat := mute_chat\<rparr>) example_settings [1] [2] w_empty
     = (Raise (RuntimeError (lit ''LLM failed'')),
        w_empty\<lparr>io_count := 3, llm_log := [(''m1'', [1], [2]), (''m2'', [1], [2])]\<rparr>)
   \<and> str_exn (OtherError []) \<noteq> lit ''LLM failed''"
  by (simp add: call_llm_tex_def model_candidates_def example_settings_def example_env_def
      strip_str_openrouter strip_str_auto mute_chat_def tick_def w_empty_def lit_def Let_def)

section \<open>Discarding a draft\<close>

lemma first_version_SomeD:
  "first_version w did k = Some v \<Longrightarrow> v \<in> set (versions w) \<and> doc_id v = did \<and> kind v = k"
  by (auto simp: first_version_def find_Some_iff)

lemma first_version_NoneD:
  "first_version w did k = None \<Longrightarrow> v \<in> set (versions w) \<Longrightarrow> \<not> (doc_id v = did \<and> kind v = k)"
  by (auto simp: first_version_def find_None_iff)

lemma uq_same_row:
  assumes "uq_doc_kind w" "v \<in> set (versions w)" "v' \<in> set (versions w)"
    "doc_id v = doc_id v'" "kind v = kind v'"
  shows "v = v'"
proof -
  have "inj_on (\<lambda>v. (doc_id v, kind v)) (set (versions w))"
    using assms(1) by (simp add: uq_doc_kind_def distinct_map)
  then show ?thesis using assms(2-5) by (auto dest: inj_onD)
qed

lemma pk_same_row:
  assumes "pk_versions w" "v \<in> set (versions w)" "v' \<in> set (versions w)" "v_id v = v_id v'"
  shows "v = v'"
proof -
  have "inj_on v_id (set (versions w))" using assms(1) by (simp add: pk_versions_def distinct_map)
  then show ?thesis using assms(2-4) by (auto dest: inj_onD)
qed

lemma fts_rebuild_result:
  "\<exists>rows. chunk_text txt 1000 = Some rows
     \<and> fts_rebuild did k txt w =
         Some (w\<lparr>chunks_fts := filter (\<lambda>c. \<not> (c_doc_id c = did \<and> c_kind c = k)) (chunks_fts w)
                    @ map (insert_chunk did k) (enumerate 0 rows)\<rparr>)"
proof -
  from chunk_text_spec[of "txt"] obtain rows where "chunk_text txt 1000 = Some rows" by blast
  then show ?thesis by (simp add: fts_rebuild_def delete_chunks_def)
qed

lemma generated_pdf_path_nonempty: "generated_pdf_path S did k \<noteq> []"
  by (simp add: generated_pdf_path_def)

lemma generated_pdf_path_kinds:
  "generated_pdf_path S did ''saved'' \<noteq> generated_pdf_path S did ''draft''"
  by (simp add: generated_pdf_path_def)

lemma db_session_Ok: "body w = (Ok x, w1) \<Longrightarrow> db_session body w = (Ok x, w1)"
  by (simp add: db_session_def)

lemma discard_no_draft:
  assumes "first_version w did ''draft'' = None"
  shows "discard_draft S did w =
     (Ok (), case get_document w did of
               None \<Rightarrow> w
             | Some doc \<Rightarrow>
                 w\<lparr>files := (files w)(generated_pdf_path S did ''draft'' := None),
                   chunks_fts := filter (\<lambda>c. \<not> (c_doc_id c = did \<and> c_kind c = ''draft'')) (chunks_fts w)\<rparr>)"
proof (cases "get_document w did")
  case None
  then show ?thesis by (simp add: discard_draft_def db_session_def discard_body_def)
next
  case (Some doc)
  have f: "files w (generated_pdf_path S did ''draft'') = None \<Longrightarrow>
      (files w)(generated_pdf_path S did ''draft'' := None) = files w"
    by (rule fun_upd_idem)
  show ?thesis using Some assms f
    by (auto simp: discard_draft_def db_session_def discard_body_def Let_def path_exists_def
        os_remove_def delete_chunks_def generated_pdf_path_nonempty)
qed

lemma discard_fixpoint:
  assumes "first_version w did ''draft'' = None"
    and "files w (generated_pdf_path S did ''draft'') = None"
    and "\<forall>c\<in>set (chunks_fts w). \<not> (c_doc_id c = did \<and> c_kind c = ''draft'')"
  shows "discard_draft S did w = (Ok (), w)"
proof -
  have "filter (\<lambda>c. \<not> (c_doc_id c = did \<and> c_kind c = ''draft'')) (chunks_fts w) = chunks_fts w"
    using assms(3) by (simp add: filter_id_conv)
  moreover have "(files w)(generated_pdf_path S did ''draft'' := None) = files w"
    using assms(2) by (rule fun_upd_idem)
  ultimately show ?thesis by (simp add: discard_no_draft[OF assms(1)] split: option.splits)
qed

lemma discard_idempotent:
  assumes "uq_doc_kind w"
  shows "discard_draft S did (snd (discard_draft S did w)) = (Ok (), snd (discard_draft S did w))"
proof (cases "get_document w did")
  case None
  then have "discard_draft S did w = (Ok (), w)"
    by (simp add: discard_draft_def db_session_def discard_body_def)
  then show ?thesis by simp
next
  case (Some doc)
  let ?dp = "generated_pdf_path S did ''draft''"
  let ?w' = "snd (discard_draft S did w)"
  have c: "chunks_fts ?w' = filter (\<lambda>c. \<not> (c_doc_id c = did \<and> c_kind c = ''draft'')) (chunks_fts w)"
    using Some
    by (simp add: discard_draft_def db_session_def discard_body_def Let_def delete_chunks_def
        os_remove_def delete_version_def delete_version_files_def split: option.splits)
  have f: "files ?w' ?dp = None"
    using Some generated_pdf_path_nonempty[of S did "''draft''"]
    by (auto simp: discard_draft_def db_session_def discard_body_def Let_def delete_chunks_def
        os_remove_def delete_version_def delete_version_files_def path_exists_def
        split: option.splits)
  have v: "versions ?w' =
      (case first_version w did ''draft'' of None \<Rightarrow> versions w
       | Some d \<Rightarrow> filter (\<lambda>v. v_id v \<noteq> v_id d) (versions w))"
    using Some
    by (simp add: discard_draft_def db_session_def discard_body_def Let_def delete_chunks_def
        os_remove_def delete_version_def delete_version_files_def split: option.splits)
  have n: "first_version ?w' did ''draft'' = None"
  proof (cases "first_version w did ''draft''")
    case None
    then show ?thesis by (simp add: first_version_def v)
  next
    case (Some d)
    note dd = first_version_SomeD[OF Some]
    have "\<not> (doc_id x = did \<and> kind x = ''draft'')" if x: "x \<in> set (versions ?w')" for x
    proof
      assume k: "doc_id x = did \<and> kind x = ''draft''"
      have xw: "x \<in> set (versions w)" "v_id x \<noteq> v_id d" using x Some by (simp_all add: v)
      have "x = d" using uq_same_row[OF assms xw(1), of d] dd k by simp
      then show False using xw(2) by simp
    qed
    then show ?thesis by (auto simp: first_version_def find_None_iff)
  qed
  have "\<forall>c\<in>set (chunks_fts ?w'). \<not> (c_doc_id c = did \<and> c_kind c = ''draft'')"
    by (simp add: c)
  then show ?thesis using discard_fixpoint[OF n f] by blast
qed

text \<open>
  C9 (as amended): when the document has no draft row, \<open>discard_draft\<close> raises nothing
  and leaves the Version rows and the document rows as they are. For an existing
  document it still deletes the file at the generated draft path and the draft-kind
  index chunks of the document, so the state is unchanged exactly when none are left
  over; a second call changes nothing. In every state whose Version rows satisfy the
  constraint \<open>uq_doc_kind\<close>, with or without a draft row, \<open>discard_draft\<close> is idempotent.
\<close>

theorem discard_draft_without_draft:
  "(first_version w did ''draft'' = None \<longrightarrow>
      fst (discard_draft S did w) = Ok ()
    \<and> versions (snd (discard_draft S did w)) = versions w
    \<and> documents (snd (discard_draft S did w)) = documents w
    \<and> (get_document w did = None \<longrightarrow> snd (discard_draft S did w) = w)
    \<and> (get_document w did \<noteq> None \<longrightarrow>
         snd (discard_draft S did w) =
           w\<lparr>files := (files w)(generated_pdf_path S did ''draft'' := None),
             chunks_fts := filter (\<lambda>c. \<not> (c_doc_id c = did \<and> c_kind c = ''draft'')) (chunks_fts w)\<rparr>)
    \<and> ((\<forall>c\<in>set (chunks_fts w). \<not> (c_doc_id c = did \<and> c_kind c = ''draft''))
         \<and> files w (generated_pdf_path S did ''draft'') = None \<longrightarrow>
         snd (discard_draft S did w) = w)
    \<and> discard_draft S did (snd (discard_draft S did w)) = (Ok (), snd (discard_draft S did w)))
   \<and> (uq_doc_kind w \<longrightarrow>
        discard_draft S did (snd (discard_draft S did w)) = (Ok (), snd (discard_draft S did w)))"
proof (intro conjI impI)
  assume a: "first_version w did ''draft'' = None"
  let ?w' = "snd (discard_draft S did w)"
  note d = discard_no_draft[OF a, of S]
  show "fst (discard_draft S did w) = Ok ()" by (simp add: d)
  show v: "versions ?w' = versions w" by (simp add: d split: option.splits)
  show dd: "documents ?w' = documents w" by (simp add: d split: option.splits)
  show "snd (discard_draft S did w) = w" if "get_document w did = None"
    using that by (simp add: d)
  show "snd (discard_draft S did w) =
           w\<lparr>files := (files w)(generated_pdf_path S did ''draft'' := None),
             chunks_fts := filter (\<lambda>c. \<not> (c_doc_id c = did \<and> c_kind c = ''draft'')) (chunks_fts w)\<rparr>"
    if "get_document w did \<noteq> None"
    using that by (auto simp: d)
  show "snd (discard_draft S did w) = w"
    if "(\<forall>c\<in>set (chunks_fts w). \<not> (c_doc_id c = did \<and> c_kind c = ''draft''))
         \<and> files w (generated_pdf_path S did ''draft'') = None"
    using discard_fixpoint[OF a, of S] that by simp
  have g: "get_document ?w' did = get_document w did" by (simp add: get_document_def dd)
  have fv: "first_version ?w' did ''draft'' = None" using a by (simp add: first_version_def v)
  show "discard_draft S did ?w' = (Ok (), ?w')"
    unfolding discard_no_draft[OF fv, of S] g
    by (simp add: d split: option.splits)
next
  assume "uq_doc_kind w"
  then show "discard_draft S did (snd (discard_draft S did w)) = (Ok (), snd (discard_draft S did w))"
    by (rule discard_idempotent)
qed

lemma str_nat_small: "str_nat 0 = ''0''" "str_nat (Suc 0) = ''1''"
  by code_simp+

lemma example_paths:
  "generated_pdf_path example_settings 1 ''draft'' = ''gen/doc_1_draft.pdf''"
  "generated_pdf_path example_settings 1 ''saved'' = ''gen/doc_1_saved.pdf''"
  by (simp_all add: generated_pdf_path_def example_settings_def str_nat_small)

text \<open>
  A document without leftovers, one with a stale draft chunk in the index, and one with
  a draft row, discarded twice.
\<close>

theorem discard_draft_without_draft_witness:
  "first_version w_clean 1 ''draft'' = None
   \<and> discard_draft example_settings 1 w_clean = (Ok (), w_clean)
   \<and> first_version w_stale 1 ''draft'' = None
   \<and> get_document w_stale 1 \<noteq> None
   \<and> versions (snd (discard_draft example_settings 1 w_stale)) = versions w_stale
   \<and> chunks_fts (snd (discard_draft example_settings 1 w_stale))
       = [\<lparr>c_doc_id = 1, c_kind = ''saved'', chunk_id = ''0'', content = [72, 105]\<rparr>]
   \<and> uq_doc_kind w_draft
   \<and> first_version w_draft 1 ''draft'' = Some example_version
   \<and> versions (snd (discard_draft example_settings 1 w_draft)) = []
   \<and> discard_draft example_settings 1 (snd (discard_draft example_settings 1 w_draft))
       = (Ok (), snd (discard_draft example_settings 1 w_draft))"
proof -
  have a: "first_version w_clean 1 ''draft'' = None"
    by (simp add: first_version_def w_clean_def w_empty_def)
  have b: "first_version w_stale 1 ''draft'' = None"
    by (simp add: first_version_def w_stale_def w_empty_def example_version_def)
  have g: "get_document w_stale 1 \<noteq> None"
    by (simp add: get_document_def w_stale_def w_empty_def example_doc_def)
  have c: "\<forall>c\<in>set (chunks_fts w_clean). \<not> (c_doc_id c = 1 \<and> c_kind c = ''draft'')"
    "files w_clean (generated_pdf_path example_settings 1 ''draft'') = None"
    by (simp_all add: w_clean_def w_empty_def)
  have 1: "discard_draft example_settings 1 w_clean = (Ok (), w_clean)"
    using discard_draft_without_draft[where w=w_clean and did=1 and S=example_settings,
        THEN conjunct1, rule_format, OF a] c
    by (metis prod.collapse)
  have 2: "versions (snd (discard_draft example_settings 1 w_stale)) = versions w_stale"
    "chunks_fts (snd (discard_draft example_settings 1 w_stale))
       = [\<lparr>c_doc_id = 1, c_kind = ''saved'', chunk_id = ''0'', content = [72, 105]\<rparr>]"
    using discard_draft_without_draft[where w=w_stale and did=1 and S=example_settings,
        THEN conjunct1, rule_format, OF b] g
    by (simp_all add: w_stale_def w_empty_def)
  have u: "uq_doc_kind w_draft" by (simp add: uq_doc_kind_def w_draft_def w_empty_def)
  have d: "first_version w_draft 1 ''draft'' = Some example_version"
    by (simp add: first_version_def w_draft_def w_empty_def example_version_def)
  have 3: "versions (snd (discard_draft example_settings 1 w_draft)) = []"
    by (simp add: discard_draft_def db_session_def discard_body_def get_document_def
        first_version_def w_draft_def w_empty_def example_doc_def example_version_def
        Let_def delete_version_def delete_version_files_def path_exists_def os_remove_def
        delete_chunks_def)
  have 4: "discard_draft example_settings 1 (snd (discard_draft example_settings 1 w_draft))
       = (Ok (), snd (discard_draft example_settings 1 w_draft))"
    using discard_draft_without_draft[where w=w_draft and did=1 and S=example_settings,
        THEN conjunct2, rule_format, OF u] .
  show ?thesis using a b g 1 2 u d 3 4 by simp
qed

text \<open>
  C9 as stated fails in the state a promotion leaves behind: no draft row, a draft-kind
  chunk still indexed. \<open>discard_draft\<close> deletes that index entry.
\<close>

theorem discard_draft_stale_index_counterexample:
  "first_version w_stale 1 ''draft'' = None
   \<and> fst (discard_draft example_settings 1 w_stale) = Ok ()
   \<and> chunks_fts w_stale
       = [\<lparr>c_doc_id = 1, c_kind = ''draft'', chunk_id = ''0'', content = [72, 105]\<rparr>,
          \<lparr>c_doc_id = 1, c_kind = ''saved'', chunk_id = ''0'', content = [72, 105]\<rparr>]
   \<and> chunks_fts (snd (discard_draft example_settings 1 w_stale))
       = [\<lparr>c_doc_id = 1, c_kind = ''saved'', chunk_id = ''0'', content = [72, 105]\<rparr>]
   \<and> snd (discard_draft example_settings 1 w_stale) \<noteq> w_stale"
proof -
  have c: "chunks_fts (snd (discard_draft example_settings 1 w_stale))
       = [\<lparr>c_doc_id = 1, c_kind = ''saved'', chunk_id = ''0'', content = [72, 105]\<rparr>]"
    by (simp add: discard_draft_def db_session_def discard_body_def get_document_def
        first_version_def w_stale_def w_empty_def example_doc_def example_version_def
        Let_def path_exists_def os_remove_def delete_chunks_def example_paths)
  have o: "chunks_fts w_stale
       = [\<lparr>c_doc_id = 1, c_kind = ''draft'', chunk_id = ''0'', content = [72, 105]\<rparr>,
          \<lparr>c_doc_id = 1, c_kind = ''saved'', chunk_id = ''0'', content = [72, 105]\<rparr>]"
    by (simp add: w_stale_def w_empty_def)
  have n: "snd (discard_draft example_settings 1 w_stale) \<noteq> w_stale"
  proof
    assume "snd (discard_draft example_settings 1 w_stale) = w_stale"
    then have "chunks_fts (snd (discard_draft example_settings 1 w_stale)) = chunks_fts w_stale" by simp
    then show False unfolding c o by simp
  qed
  have f: "fst (discard_draft example_settings 1 w_stale) = Ok ()"
    by (simp add: discard_draft_def db_session_def discard_body_def get_document_def
        w_stale_def w_empty_def example_doc_def Let_def split: option.splits)
  have b: "first_version w_stale 1 ''draft'' = None"
    by (simp add: first_version_def w_stale_def w_empty_def example_version_def)
  show ?thesis using b f o c n by simp
qed

section \<open>Promotion\<close>

lemma filter_map_upd_single:
  assumes "distinct (map key xs)" "d \<in> set xs" "P (f d)" "\<forall>v\<in>set xs. v \<noteq> d \<longrightarrow> \<not> P v"
  shows "filter P (map (\<lambda>v. if key v = key d then f v else v) xs) = [f d]"
  using assms
proof (induction xs)
  case Nil
  then show ?case by simp
next
  case (Cons x xs)
  show ?case
  proof (cases "x = d")
    case True
    then have "key d \<notin> key ` set xs" using Cons.prems(1) by simp
    then have nk: "\<forall>v\<in>set xs. key v \<noteq> key d" by (metis imageI)
    then have "map (\<lambda>v. if key v = key d then f v else v) xs = xs" by (simp add: map_idI)
    moreover have "\<forall>v\<in>set xs. v \<noteq> d" using nk by auto
    then have "filter P xs = []" using Cons.prems(4) by (simp add: filter_empty_conv)
    ultimately show ?thesis using True Cons.prems(3) by simp
  next
    case False
    then have d: "d \<in> set xs" using Cons.prems(2) by simp
    then have "key x \<noteq> key d" using Cons.prems(1) by force
    moreover have "\<not> P x" using Cons.prems(4) False by simp
    moreover have "filter P (map (\<lambda>v. if key v = key d then f v else v) xs) = [f d]"
      using Cons.IH d Cons.prems by simp
    ultimately show ?thesis by simp
  qed
qed

lemma filter_map_upd_none:
  assumes "\<forall>v\<in>set xs. P v \<longrightarrow> key v = key d" "\<forall>v. \<not> P (f v)"
  shows "filter P (map (\<lambda>v. if key v = key d then f v else v) xs) = []"
  using assms by (induction xs) auto

lemma promote_result:
  assumes "get_document w did = Some doc" "first_version w did ''draft'' = Some draft"
  shows "\<exists>rows. chunk_text (plain_text draft) 1000 = Some rows
     \<and> promote_draft_to_saved E S did w = (Ok (), promoted E S did draft rows w)"
proof -
  let ?w4 = "(let w1 = evict_saved did w;
          w2 = copy_artifact (pdf_path draft) (generated_pdf_path S did ''saved'') w1;
          w3 = tick (update_version (v_id draft)
                 (\<lambda>v. v\<lparr>kind := ''saved'', pdf_path := generated_pdf_path S did ''saved'',
                        updated_at := utc E w2\<rparr>) w2)
          in (if path_exists w3 (generated_pdf_path S did ''draft'')
                then os_remove (generated_pdf_path S did ''draft'') w3 else w3))"
  from fts_rebuild_result[of "plain_text draft" did "''saved''" ?w4]
  obtain rows where r: "chunk_text (plain_text draft) 1000 = Some rows"
    "fts_rebuild did ''saved'' (plain_text draft) ?w4 =
       Some (?w4\<lparr>chunks_fts := filter (\<lambda>c. \<not> (c_doc_id c = did \<and> c_kind c = ''saved'')) (chunks_fts ?w4)
                    @ map (insert_chunk did ''saved'') (enumerate 0 rows)\<rparr>)"
    by blast
  have "promote_body E S did w = (Ok (), promoted E S did draft rows w)"
    using assms r(2) by (simp add: promote_body_def promoted_def Let_def)
  then show ?thesis using r(1) by (simp add: promote_draft_to_saved_def db_session_def)
qed

lemma versions_evict:
  "versions (evict_saved did w) =
     (case first_version w did ''saved'' of None \<Rightarrow> versions w
      | Some old \<Rightarrow> filter (\<lambda>v. v_id v \<noteq> v_id old) (versions w))"
  by (simp add: evict_saved_def delete_version_def delete_version_files_def os_remove_def
      split: option.splits)

lemma files_evict:
  "files (evict_saved did w) =
     (case first_version w did ''saved'' of None \<Rightarrow> files w
      | Some old \<Rightarrow> if path_exists w (pdf_path old) then (files w)(pdf_path old := None) else files w)"
  by (simp add: evict_saved_def delete_version_def delete_version_files_def os_remove_def
      split: option.splits)

lemma promoted_versions:
  "versions (promoted E S did draft rows w) =
     map (\<lambda>v. if v_id v = v_id draft
               then v\<lparr>kind := ''saved'', pdf_path := generated_pdf_path S did ''saved'',
                      updated_at := utc E w\<rparr>
               else v) (versions (evict_saved did w))"
proof -
  have io: "io_count (copy_artifact a b (evict_saved did w)) = io_count w" for a b
    by (simp add: copy_artifact_def evict_saved_def delete_version_def delete_version_files_def
        os_remove_def split: option.splits)
  have v: "versions (copy_artifact a b w') = versions w'" for a b w'
    by (simp add: copy_artifact_def split: option.splits)
  show ?thesis
    by (simp add: promoted_def Let_def update_document_def tick_def update_version_def
        os_remove_def utc_def io v)
qed

lemma promoted_chunks:
  "chunks_fts (promoted E S did draft rows w) =
     filter (\<lambda>c. \<not> (c_doc_id c = did \<and> c_kind c = ''saved'')) (chunks_fts w)
       @ map (insert_chunk did ''saved'') (enumerate 0 rows)"
proof -
  have c: "chunks_fts (copy_artifact a b (evict_saved did w)) = chunks_fts w" for a b
    by (simp add: copy_artifact_def evict_saved_def delete_version_def delete_version_files_def
        os_remove_def split: option.splits)
  show ?thesis
    by (simp add: promoted_def Let_def update_document_def tick_def update_version_def
        os_remove_def c)
qed

lemma promoted_files:
  "files (promoted E S did draft rows w) =
     (files (copy_artifact (pdf_path draft) (generated_pdf_path S did ''saved'') (evict_saved did w)))
       (generated_pdf_path S did ''draft'' := None)"
proof -
  have "(files w')(p := None) = files w'" if "\<not> path_exists w' p" "p \<noteq> []" for w' :: world and p
    using that by (simp add: path_exists_def fun_upd_idem)
  then show ?thesis
    by (auto simp: promoted_def Let_def update_document_def tick_def update_version_def
        os_remove_def path_exists_def generated_pdf_path_nonempty)
qed

lemma map_d_id_upd:
  "(\<And>d. d_id (f d) = d_id d) \<Longrightarrow>
   map d_id (map (\<lambda>d. if d_id d = did then f d else d) xs) = map d_id xs"
  by (induction xs) auto

lemma get_document_ids: "get_document w did \<noteq> None \<longleftrightarrow> did \<in> set (map d_id (documents w))"
  by (auto simp: get_document_def find_None_iff)

lemma promoted_documents:
  "get_document (promoted E S did draft rows w) did' \<noteq> None \<longleftrightarrow> get_document w did' \<noteq> None"
proof -
  have d: "documents (copy_artifact a b (evict_saved did w)) = documents w" for a b
    by (simp add: copy_artifact_def evict_saved_def delete_version_def delete_version_files_def
        os_remove_def split: option.splits)
  have "map d_id (documents (promoted E S did draft rows w)) = map d_id (documents w)"
    by (simp add: promoted_def Let_def update_document_def tick_def update_version_def
        os_remove_def d map_d_id_upd)
  then show ?thesis unfolding get_document_ids by simp
qed

lemma evict_subset: "set (versions (evict_saved did w)) \<subseteq> set (versions w)"
  by (auto simp: versions_evict split: option.splits)

lemma promoted_no_draft:
  assumes "first_version w did ''draft'' = Some draft" "uq_doc_kind w"
  shows "filter (\<lambda>v. doc_id v = did \<and> kind v = ''draft'') (versions (promoted E S did draft rows w)) = []"
  unfolding promoted_versions
proof (rule filter_map_upd_none)
  show "\<forall>v\<in>set (versions (evict_saved did w)). doc_id v = did \<and> kind v = ''draft'' \<longrightarrow> v_id v = v_id draft"
  proof (intro ballI impI)
    fix v assume v: "v \<in> set (versions (evict_saved did w))" "doc_id v = did \<and> kind v = ''draft''"
    then have "v \<in> set (versions w)" using evict_subset by blast
    then have "v = draft"
      using uq_same_row[OF assms(2), of v draft] first_version_SomeD[OF assms(1)] v(2) by simp
    then show "v_id v = v_id draft" by simp
  qed
  show "\<forall>v. \<not> (doc_id (v\<lparr>kind := ''saved'', pdf_path := generated_pdf_path S did ''saved'',
                      updated_at := utc E w\<rparr>) = did
        \<and> kind (v\<lparr>kind := ''saved'', pdf_path := generated_pdf_path S did ''saved'',
                      updated_at := utc E w\<rparr>) = ''draft'')"
    by simp
qed

lemma promoted_one_saved:
  assumes d: "first_version w did ''draft'' = Some draft" and uq: "uq_doc_kind w" and pk: "pk_versions w"
  shows "filter (\<lambda>v. doc_id v = did \<and> kind v = ''saved'') (versions (promoted E S did draft rows w))
     = [draft\<lparr>kind := ''saved'', pdf_path := generated_pdf_path S did ''saved'', updated_at := utc E w\<rparr>]"
  unfolding promoted_versions
proof (rule filter_map_upd_single)
  note dd = first_version_SomeD[OF d]
  show "distinct (map v_id (versions (evict_saved did w)))"
    using pk by (simp add: versions_evict pk_versions_def distinct_map_filter split: option.splits)
  show "draft \<in> set (versions (evict_saved did w))"
  proof (cases "first_version w did ''saved''")
    case None
    then show ?thesis using dd by (simp add: versions_evict)
  next
    case (Some old)
    note oo = first_version_SomeD[OF Some]
    have "v_id draft \<noteq> v_id old"
    proof
      assume "v_id draft = v_id old"
      then have "draft = old" using pk_same_row[OF pk, of draft old] dd oo by simp
      then show False using dd oo by simp
    qed
    then show ?thesis using dd Some by (simp add: versions_evict)
  qed
  show "doc_id (draft\<lparr>kind := ''saved'', pdf_path := generated_pdf_path S did ''saved'', updated_at := utc E w\<rparr>) = did
      \<and> kind (draft\<lparr>kind := ''saved'', pdf_path := generated_pdf_path S did ''saved'', updated_at := utc E w\<rparr>) = ''saved''"
    using dd by simp
  show "\<forall>v\<in>set (versions (evict_saved did w)). v \<noteq> draft \<longrightarrow> \<not> (doc_id v = did \<and> kind v = ''saved'')"
  proof (intro ballI impI notI)
    fix v assume v: "v \<in> set (versions (evict_saved did w))" "doc_id v = did \<and> kind v = ''saved''"
    then have vw: "v \<in> set (versions w)" using evict_subset by blast
    show False
    proof (cases "first_version w did ''saved''")
      case None
      then show ?thesis using first_version_NoneD[OF None vw] v(2) by simp
    next
      case (Some old)
      note oo = first_version_SomeD[OF Some]
      have "v = old" using uq_same_row[OF uq vw, of old] oo v(2) by simp
      then show ?thesis using v(1) Some by (simp add: versions_evict)
    qed
  qed
qed

lemma evicted_file_gone:
  assumes "first_version w did ''saved'' = Some old"
  shows "\<not> path_exists (evict_saved did w) (pdf_path old)"
  using assms by (simp add: path_exists_def files_evict)

lemma promoted_old_row_gone:
  assumes d: "first_version w did ''draft'' = Some draft" and pk: "pk_versions w"
    and o: "first_version w did ''saved'' = Some old"
  shows "\<forall>v\<in>set (versions (promoted E S did draft rows w)). v_id v \<noteq> v_id old"
proof -
  note dd = first_version_SomeD[OF d] and oo = first_version_SomeD[OF o]
  have ne: "v_id draft \<noteq> v_id old"
  proof
    assume "v_id draft = v_id old"
    then have "draft = old" using pk_same_row[OF pk, of draft old] dd oo by simp
    then show False using dd oo by simp
  qed
  show ?thesis using ne o by (auto simp: promoted_versions versions_evict)
qed

lemma promoted_old_path:
  assumes o: "first_version w did ''saved'' = Some old"
  shows "(pdf_path old \<noteq> generated_pdf_path S did ''saved'' \<longrightarrow>
            \<not> path_exists (promoted E S did draft rows w) (pdf_path old))
       \<and> (pdf_path old = generated_pdf_path S did ''saved'' \<longrightarrow>
            files (promoted E S did draft rows w) (pdf_path old) =
              (if path_exists (evict_saved did w) (pdf_path draft)
               then files (evict_saved did w) (pdf_path draft) else None))"
proof -
  have g: "files (evict_saved did w) (pdf_path old) = None \<or> pdf_path old = []"
    using evicted_file_gone[OF o] by (auto simp: path_exists_def)
  show ?thesis using g generated_pdf_path_kinds[of S did] generated_pdf_path_nonempty[of S did "''saved''"]
    by (auto simp: promoted_files copy_artifact_def path_exists_def split: option.splits)
qed

lemma example_paths_Suc:
  "generated_pdf_path example_settings (Suc 0) ''draft'' = ''gen/doc_1_draft.pdf''"
  "generated_pdf_path example_settings (Suc 0) ''saved'' = ''gen/doc_1_saved.pdf''"
  using example_paths by simp_all

text \<open>
  C2: for a document with a draft row, in a table that satisfies its primary key and
  the constraint \<open>uq_doc_kind\<close>, \<open>promote_draft_to_saved\<close> returns normally and leaves
  exactly one saved row for the document, which is the draft row with its kind, its
  artifact path and its \<open>updated_at\<close> rewritten (same id, source, plain text), and no
  draft row. A prior saved row is deleted and its artifact file is removed in the
  eviction step, before the copy; afterwards its path holds no file, unless it is the
  generated saved path, which then holds the copy of the draft's artifact.
\<close>

theorem promote_draft_to_saved_exclusive:
  assumes "get_document w did = Some doc" and "first_version w did ''draft'' = Some draft"
    and "pk_versions w" and "uq_doc_kind w"
  shows "fst (promote_draft_to_saved E S did w) = Ok ()
    \<and> filter (\<lambda>v. doc_id v = did \<and> kind v = ''saved'') (versions (snd (promote_draft_to_saved E S did w)))
        = [draft\<lparr>kind := ''saved'', pdf_path := generated_pdf_path S did ''saved'', updated_at := utc E w\<rparr>]
    \<and> filter (\<lambda>v. doc_id v = did \<and> kind v = ''draft'') (versions (snd (promote_draft_to_saved E S did w))) = []
    \<and> (\<forall>old. first_version w did ''saved'' = Some old \<longrightarrow>
          (\<forall>v\<in>set (versions (snd (promote_draft_to_saved E S did w))). v_id v \<noteq> v_id old)
          \<and> \<not> path_exists (evict_saved did w) (pdf_path old)
          \<and> (pdf_path old \<noteq> generated_pdf_path S did ''saved'' \<longrightarrow>
               \<not> path_exists (snd (promote_draft_to_saved E S did w)) (pdf_path old))
          \<and> (pdf_path old = generated_pdf_path S did ''saved'' \<longrightarrow>
               files (snd (promote_draft_to_saved E S did w)) (pdf_path old) =
                 (if path_exists (evict_saved did w) (pdf_path draft)
                  then files (evict_saved did w) (pdf_path draft) else None)))"
proof -
  from promote_result[OF assms(1,2), of E S] obtain rows where
    r: "promote_draft_to_saved E S did w = (Ok (), promoted E S did draft rows w)" by blast
  show ?thesis
    unfolding r fst_conv snd_conv
    using promoted_one_saved[OF assms(2,4,3), of E S rows] promoted_no_draft[OF assms(2,4), of E S rows]
      promoted_old_row_gone[OF assms(2,3), of _ E S rows] evicted_file_gone[of w did]
      promoted_old_path[of w did _ S E draft rows]
    by blast
qed

text \<open>A document with a saved and a draft version, both artifacts on disk.\<close>

theorem promote_draft_to_saved_exclusive_witness:
  "get_document w_both 1 = Some example_doc \<and> first_version w_both 1 ''draft'' = Some example_draft
   \<and> pk_versions w_both \<and> uq_doc_kind w_both
   \<and> first_version w_both 1 ''saved'' = Some example_saved
   \<and> fst (promote_draft_to_saved example_env example_settings 1 w_both) = Ok ()
   \<and> filter (\<lambda>v. doc_id v = 1 \<and> kind v = ''saved'')
        (versions (snd (promote_draft_to_saved example_env example_settings 1 w_both)))
       = [example_draft\<lparr>kind := ''saved'', pdf_path := ''gen/doc_1_saved.pdf'', updated_at := 0\<rparr>]
   \<and> filter (\<lambda>v. doc_id v = 1 \<and> kind v = ''draft'')
        (versions (snd (promote_draft_to_saved example_env example_settings 1 w_both))) = []
   \<and> \<not> path_exists (evict_saved 1 w_both) ''gen/doc_1_saved.pdf''
   \<and> files (snd (promote_draft_to_saved example_env example_settings 1 w_both)) ''gen/doc_1_saved.pdf''
       = Some [2]"
proof -
  have a: "get_document w_both 1 = Some example_doc"
    by (simp add: get_document_def w_both_def w_empty_def example_doc_def)
  have b: "first_version w_both 1 ''draft'' = Some example_draft"
    by (simp add: first_version_def w_both_def w_empty_def example_draft_def example_saved_def)
  have c: "pk_versions w_both"
    by (simp add: pk_versions_def w_both_def w_empty_def example_draft_def example_saved_def)
  have d: "uq_doc_kind w_both"
    by (simp add: uq_doc_kind_def w_both_def w_empty_def example_draft_def example_saved_def)
  have e: "first_version w_both 1 ''saved'' = Some example_saved"
    by (simp add: first_version_def w_both_def w_empty_def example_draft_def example_saved_def)
  have p: "pdf_path example_saved = generated_pdf_path example_settings 1 ''saved''"
    by (simp add: example_paths_Suc example_saved_def)
  have u: "utc example_env w_both = 0" by (simp add: utc_def example_env_def)
  have pe: "path_exists w_both (pdf_path example_saved)"
    by (simp add: path_exists_def example_saved_def w_both_def w_empty_def)
  have fe: "files (evict_saved 1 w_both) = (files w_both)(pdf_path example_saved := None)"
    unfolding files_evict e using pe by simp
  have f: "files (evict_saved 1 w_both) ''gen/doc_1_draft.pdf'' = Some [2]"
    unfolding fe by (simp add: w_both_def w_empty_def example_saved_def)
  have x: "path_exists (evict_saved 1 w_both) (pdf_path example_draft)"
    using f by (simp add: path_exists_def example_draft_def)
  note t = promote_draft_to_saved_exclusive[OF a b c d, of example_env example_settings]
  have 1: "fst (promote_draft_to_saved example_env example_settings 1 w_both) = Ok ()"
    using t by blast
  have 2: "filter (\<lambda>v. doc_id v = 1 \<and> kind v = ''saved'')
        (versions (snd (promote_draft_to_saved example_env example_settings 1 w_both)))
       = [example_draft\<lparr>kind := ''saved'', pdf_path := ''gen/doc_1_saved.pdf'', updated_at := 0\<rparr>]"
    using t by (simp add: u example_paths_Suc)
  have 3: "filter (\<lambda>v. doc_id v = 1 \<and> kind v = ''draft'')
        (versions (snd (promote_draft_to_saved example_env example_settings 1 w_both))) = []"
    using t by blast
  have 4: "\<not> path_exists (evict_saved 1 w_both) ''gen/doc_1_saved.pdf''"
    using t e by (auto simp: example_saved_def)
  have 5: "files (snd (promote_draft_to_saved example_env example_settings 1 w_both)) ''gen/doc_1_saved.pdf''
       = Some [2]"
    using t[THEN conjunct2, THEN conjunct2, THEN conjunct2, rule_format, OF e] p x f
    by (simp add: example_draft_def example_saved_def)
  show ?thesis using a b c d e 1 2 3 4 5 by simp
qed

section \<open>Stale draft chunks after a promotion\<close>

lemma filter_inserted:
  "filter (\<lambda>c. c_doc_id c = did \<and> c_kind c = k) (map (insert_chunk did k) ys)
     = map (insert_chunk did k) ys"
  by (induction ys) (simp_all add: insert_chunk_def)

lemma rebuilt_kind_chunks:
  "filter (\<lambda>c. c_doc_id c = did \<and> c_kind c = k)
     (filter (\<lambda>c. \<not> (c_doc_id c = did \<and> c_kind c = k)) xs @ map (insert_chunk did k) ys)
   = map (insert_chunk did k) ys"
proof -
  have "filter (\<lambda>c. c_doc_id c = did \<and> c_kind c = k) (map (insert_chunk did k) ys)
        = map (insert_chunk did k) ys"
    by (induction ys) (simp_all add: insert_chunk_def)
  moreover have "filter (\<lambda>c. c_doc_id c = did \<and> c_kind c = k)
     (filter (\<lambda>c. \<not> (c_doc_id c = did \<and> c_kind c = k)) xs) = []"
    by (induction xs) auto
  ultimately show ?thesis by simp
qed

lemma other_kind_chunks:
  "k' \<noteq> k \<Longrightarrow>
   filter (\<lambda>c. c_doc_id c = did \<and> c_kind c = k')
     (filter (\<lambda>c. \<not> (c_doc_id c = did \<and> c_kind c = k)) xs @ map (insert_chunk did k) ys)
   = filter (\<lambda>c. c_doc_id c = did \<and> c_kind c = k') xs"
proof -
  assume n: "k' \<noteq> k"
  have "filter (\<lambda>c. c_doc_id c = did \<and> c_kind c = k') (map (insert_chunk did k) ys) = []"
    using n by (induction ys) (simp_all add: insert_chunk_def)
  moreover have "filter (\<lambda>c. c_doc_id c = did \<and> c_kind c = k')
     (filter (\<lambda>c. \<not> (c_doc_id c = did \<and> c_kind c = k)) xs)
     = filter (\<lambda>c. c_doc_id c = did \<and> c_kind c = k') xs"
    using n by (induction xs) auto
  ultimately show ?thesis by simp
qed

lemma first_version_None_filter:
  "filter (\<lambda>v. doc_id v = did \<and> kind v = k) (versions w) = [] \<Longrightarrow> first_version w did k = None"
  by (simp add: first_version_def find_None_iff filter_empty_conv)

text \<open>
  C10 (as amended): \<open>promote_draft_to_saved\<close> deletes and rebuilds only the saved-kind
  chunks of the document, so the draft-kind chunks indexed before are all still indexed
  afterwards although no draft row remains. A later \<open>discard_draft\<close> removes them, and
  so does any later rebuild of the draft index, which replaces them by the chunks of the
  new draft text.
\<close>

theorem promote_keeps_draft_chunks:
  assumes "get_document w did = Some doc" and "first_version w did ''draft'' = Some draft"
    and "uq_doc_kind w"
  shows "fst (promote_draft_to_saved E S did w) = Ok ()
    \<and> filter (\<lambda>c. \<not> (c_doc_id c = did \<and> c_kind c = ''saved''))
         (chunks_fts (snd (promote_draft_to_saved E S did w)))
       = filter (\<lambda>c. \<not> (c_doc_id c = did \<and> c_kind c = ''saved'')) (chunks_fts w)
    \<and> filter (\<lambda>c. c_doc_id c = did \<and> c_kind c = ''draft'')
         (chunks_fts (snd (promote_draft_to_saved E S did w)))
       = filter (\<lambda>c. c_doc_id c = did \<and> c_kind c = ''draft'') (chunks_fts w)
    \<and> first_version (snd (promote_draft_to_saved E S did w)) did ''draft'' = None
    \<and> filter (\<lambda>c. c_doc_id c = did \<and> c_kind c = ''draft'')
         (chunks_fts (snd (discard_draft S did (snd (promote_draft_to_saved E S did w))))) = []
    \<and> (\<forall>t. \<exists>w' rows. fts_rebuild did ''draft'' t (snd (promote_draft_to_saved E S did w)) = Some w'
          \<and> chunk_text t 1000 = Some rows
          \<and> map content (filter (\<lambda>c. c_doc_id c = did \<and> c_kind c = ''draft'') (chunks_fts w')) = rows)"
proof -
  from promote_result[OF assms(1,2), of E S] obtain rows where
    r: "promote_draft_to_saved E S did w = (Ok (), promoted E S did draft rows w)" by blast
  let ?W = "promoted E S did draft rows w"
  have 1: "filter (\<lambda>c. \<not> (c_doc_id c = did \<and> c_kind c = ''saved'')) (chunks_fts ?W)
       = filter (\<lambda>c. \<not> (c_doc_id c = did \<and> c_kind c = ''saved'')) (chunks_fts w)"
  proof -
    have "filter (\<lambda>c. \<not> (c_doc_id c = did \<and> c_kind c = ''saved''))
            (map (insert_chunk did ''saved'') ys) = []" for ys
      by (induction ys) (simp_all add: insert_chunk_def)
    then show ?thesis by (simp add: promoted_chunks)
  qed
  have 2: "filter (\<lambda>c. c_doc_id c = did \<and> c_kind c = ''draft'') (chunks_fts ?W)
       = filter (\<lambda>c. c_doc_id c = did \<and> c_kind c = ''draft'') (chunks_fts w)"
    unfolding promoted_chunks by (rule other_kind_chunks) simp
  have 3: "first_version ?W did ''draft'' = None"
    by (rule first_version_None_filter) (rule promoted_no_draft[OF assms(2,3)])
  have g: "get_document ?W did \<noteq> None"
    unfolding promoted_documents using assms(1) by simp
  have 4: "filter (\<lambda>c. c_doc_id c = did \<and> c_kind c = ''draft'')
         (chunks_fts (snd (discard_draft S did ?W))) = []"
    using g by (auto simp: discard_no_draft[OF 3] filter_empty_conv)
  have 5: "\<exists>w' rows. fts_rebuild did ''draft'' t ?W = Some w' \<and> chunk_text t 1000 = Some rows
          \<and> map content (filter (\<lambda>c. c_doc_id c = did \<and> c_kind c = ''draft'') (chunks_fts w')) = rows" for t
  proof -
    from fts_rebuild_result[of t did "''draft''" ?W] obtain rows' where
      f: "chunk_text t 1000 = Some rows'"
        "fts_rebuild did ''draft'' t ?W =
           Some (?W\<lparr>chunks_fts := filter (\<lambda>c. \<not> (c_doc_id c = did \<and> c_kind c = ''draft'')) (chunks_fts ?W)
                    @ map (insert_chunk did ''draft'') (enumerate 0 rows')\<rparr>)" by blast
    have "map content (map (insert_chunk did ''draft'') (enumerate 0 rows')) = rows'"
      by (simp add: insert_chunk_def comp_def)
    then show ?thesis using f by (simp add: filter_inserted)
  qed
  show ?thesis unfolding r fst_conv snd_conv using 1 2 3 4 5 by blast
qed

lemma chunk_text_Hi: "chunk_text [72, 105] 1000 = Some [[72, 105]]"
  by (simp add: chunk_text_def strip_def isspace_def chunk_loop.simps)

lemma chunk_text_New: "chunk_text [78, 101, 119] 1000 = Some [[78, 101, 119]]"
  by (simp add: chunk_text_def strip_def isspace_def chunk_loop.simps)

lemma promote_example:
  "fst (promote_draft_to_saved example_env example_settings 1 w_draft) = Ok ()"
  "chunks_fts (snd (promote_draft_to_saved example_env example_settings 1 w_draft)) = chunks_fts w_stale"
  "versions (snd (promote_draft_to_saved example_env example_settings 1 w_draft)) = versions w_stale"
  by (simp_all add: promote_draft_to_saved_def db_session_def promote_body_def get_document_def
      first_version_def w_draft_def w_stale_def w_empty_def example_doc_def example_version_def
      evict_saved_def copy_artifact_def path_exists_def example_paths example_paths_Suc
      update_version_def tick_def utc_def example_env_def os_remove_def fts_rebuild_def
      delete_chunks_def chunk_text_Hi insert_chunk_def str_nat_small update_document_def Let_def)

section \<open>The transform job\<close>

lemma same_rows_refl: "same_rows w w"
  by (simp add: same_rows_def)

lemma same_rows_trans: "same_rows w w1 \<Longrightarrow> same_rows w1 w2 \<Longrightarrow> same_rows w w2"
  by (simp add: same_rows_def)

lemma try_models_frame:
  "try_models E sp up cs le w = (r, w') \<Longrightarrow>
   same_rows w w' \<and> compile_log w' = compile_log w \<and> files w' = files w
     \<and> documents w' = documents w"
proof (induction cs arbitrary: w le)
  case Nil
  then show ?case by (auto simp: same_rows_def)
next
  case (Cons c cs)
  show ?case
  proof (cases "post_chat E (io_count w) c sp up")
    case (Inr out)
    then show ?thesis using Cons.prems by (auto simp: same_rows_def tick_def Let_def)
  next
    case (Inl e)
    then have "try_models E sp up cs (str_exn e) ((tick w)\<lparr>llm_log := llm_log w @ [(c, sp, up)]\<rparr>) = (r, w')"
      using Cons.prems by (simp add: Let_def)
    from Cons.IH[OF this] show ?thesis by (simp add: same_rows_def tick_def)
  qed
qed

lemma call_llm_tex_frame:
  assumes "call_llm_tex E S sp up w = (r, w')"
  shows "same_rows w w' \<and> compile_log w' = compile_log w \<and> files w' = files w
     \<and> documents w' = documents w"
proof -
  have t: "same_rows w w \<and> compile_log w = compile_log w \<and> files w = files w
     \<and> documents w = documents w" by (simp add: same_rows_refl)
  show ?thesis
  proof (cases "model_candidates E S w")
    case (Pair c w1)
    have w1: "w1 = w \<or> w1 = tick w" using Pair by (auto simp: model_candidates_def Let_def split: if_splits)
    then have f1: "same_rows w w1 \<and> compile_log w1 = compile_log w \<and> files w1 = files w
        \<and> documents w1 = documents w" by (auto simp: same_rows_def tick_def)
    show ?thesis
    proof (cases c)
      case (Inl e)
      then show ?thesis using assms Pair f1 t by (auto simp: call_llm_tex_def Let_def split: if_splits)
    next
      case (Inr cands)
      show ?thesis
      proof (cases "call_llm_tex E S sp up w = try_models E sp up (take 6 cands) [] w1")
        case True
        then have "try_models E sp up (take 6 cands) [] w1 = (r, w')" using assms by simp
        from try_models_frame[OF this] f1 show ?thesis by (simp add: same_rows_def)
      next
        case False
        then show ?thesis using assms Pair Inr t by (auto simp: call_llm_tex_def Let_def split: if_splits)
      qed
    qed
  qed
qed

lemma run_passes_frame:
  "run_passes E src n acc w = (r, w') \<Longrightarrow>
   same_rows w w' \<and> compile_log w' = compile_log w \<and> files w' = files w
     \<and> documents w' = documents w \<and> llm_log w' = llm_log w"
proof (induction n arbitrary: w acc)
  case 0
  then show ?case by (auto simp: same_rows_def)
next
  case (Suc n)
  show ?case
  proof (cases "subprocess_run E (io_count w) src")
    case (Inl e)
    then show ?thesis using Suc.prems by (auto simp: same_rows_def tick_def Let_def)
  next
    case (Inr t)
    obtain rc out pdf where t: "t = (rc, out, pdf)" by (cases t)
    show ?thesis
    proof (cases "rc \<noteq> 0")
      case True
      then show ?thesis using Suc.prems Inr t by (auto simp: same_rows_def tick_def Let_def)
    next
      case False
      then have "run_passes E src n (last_chars 8000 out, pdf) (tick w) = (r, w')"
        using Suc.prems Inr t by (simp add: Let_def)
      from Suc.IH[OF this] show ?thesis by (simp add: same_rows_def tick_def)
    qed
  qed
qed

lemma compile_frame:
  assumes "compile_tex_to_pdf E S src out toc w = (r, w')"
  shows "same_rows w w' \<and> compile_log w' = compile_log w @ [src]
     \<and> documents w' = documents w \<and> llm_log w' = llm_log w"
proof (cases "run_passes E src (pass_count S toc) ([], None) (w\<lparr>compile_log := compile_log w @ [src]\<rparr>)")
  case (Pair a w1)
  from run_passes_frame[OF Pair]
  have f: "same_rows w w1 \<and> compile_log w1 = compile_log w @ [src] \<and> documents w1 = documents w
     \<and> llm_log w1 = llm_log w"
    by (simp add: same_rows_def)
  show ?thesis using assms Pair f
    by (auto simp: compile_tex_to_pdf_def Let_def same_rows_def split: sum.splits option.splits)
qed

lemma mark_processing_frame:
  "mark_processing E did w = (b, w') \<Longrightarrow> same_rows w w' \<and> compile_log w' = compile_log w"
  by (auto simp: mark_processing_def same_rows_def tick_def update_document_def map_d_id_upd
      split: option.splits)

lemma mark_error_frame:
  "same_rows w (mark_error E did m w) \<and> compile_log (mark_error E did m w) = compile_log w"
  by (auto simp: mark_error_def same_rows_def tick_def update_document_def map_d_id_upd
      split: option.splits)

lemma original_input_frame:
  "original_input E did doc w = (r, w') \<Longrightarrow> same_rows w w' \<and> compile_log w' = compile_log w"
  by (auto simp: original_input_def same_rows_def tick_def update_document_def map_d_id_upd Let_def
      split: option.splits sum.splits if_splits)

lemma transform_prompts_frame:
  assumes "transform_prompts E did bk toc st sp ex w = (r, w')"
  shows "same_rows w w' \<and> compile_log w' = compile_log w"
proof (cases "get_document w did")
  case None
  then show ?thesis using assms by (auto simp: transform_prompts_def same_rows_def)
next
  case (Some doc)
  obtain r0 w0 where o: "original_input E did doc w = (r0, w0)" by (cases "original_input E did doc w")
  note f = original_input_frame[OF o]
  show ?thesis using assms Some o f same_rows_refl[of w]
    by (auto simp: transform_prompts_def Let_def and_then_def split: option.splits outcome.splits if_splits)
qed

lemma db_session_frame:
  assumes "db_session body w = (r, w')" and "\<And>r1 w1. body w = (r1, w1) \<Longrightarrow> same_rows w w1 \<and> compile_log w1 = compile_log w"
  shows "same_rows w w' \<and> compile_log w' = compile_log w"
proof -
  obtain r1 w1 where b: "body w = (r1, w1)" by (cases "body w")
  from assms(2)[OF b] assms(1) b show ?thesis
    by (cases r1) (auto simp: db_session_def same_rows_def)
qed

lemma compile_with_repair_frame:
  assumes "compile_with_repair E S did toc ft w = (r, w')"
  shows "same_rows w w' \<and> length (compile_log w') \<le> length (compile_log w) + 2"
proof -
  let ?out = "generated_pdf_path S did ''draft''"
  obtain r1 w1 where c1: "compile_tex_to_pdf E S ft ?out toc w = (r1, w1)"
    by (cases "compile_tex_to_pdf E S ft ?out toc w")
  note f1 = compile_frame[OF c1]
  show ?thesis
  proof (cases "\<exists>m. r1 = Raise (LatexCompileError m)")
    case False
    then have "w' = w1" using assms c1
      by (auto simp: compile_with_repair_def Let_def split: outcome.splits exn.splits)
    then show ?thesis using f1 by simp
  next
    case True
    then obtain m where m: "r1 = Raise (LatexCompileError m)" by blast
    obtain r2 w2 where c2: "call_llm_tex E S repair_system (repair_user (LatexCompileError m) ft) w1 = (r2, w2)"
      by (cases "call_llm_tex E S repair_system (repair_user (LatexCompileError m) ft) w1")
    note f2 = call_llm_tex_frame[OF c2]
    show ?thesis
    proof (cases r2)
      case (Ok x)
      obtain tex_fixed mid where x: "x = (tex_fixed, mid)" by (cases x)
      obtain r3 w3 where c3: "compile_tex_to_pdf E S (make_full_tex E (extract_body E tex_fixed) toc) ?out toc w2 = (r3, w3)"
        by (cases "compile_tex_to_pdf E S (make_full_tex E (extract_body E tex_fixed) toc) ?out toc w2")
      note f3 = compile_frame[OF c3]
      have "w' = w3" using assms c1 m c2 Ok x c3
        by (auto simp: compile_with_repair_def Let_def and_then_def split: outcome.splits)
      then show ?thesis using f1 f2 f3 by (simp add: same_rows_def)
    next
      case (Raise e)
      then have "w' = w2" using assms c1 m c2
        by (auto simp: compile_with_repair_def Let_def and_then_def)
      then show ?thesis using f1 f2 by (simp add: same_rows_def)
    next
      case Diverge
      then have "w' = w2" using assms c1 m c2
        by (auto simp: compile_with_repair_def Let_def and_then_def)
      then show ?thesis using f1 f2 by (simp add: same_rows_def)
    qed
  qed
qed

lemma transform_compute_frame:
  assumes "transform_compute E S did bk toc st sp ex w = (r, w')"
  shows "same_rows w w' \<and> length (compile_log w') \<le> length (compile_log w) + 2"
proof -
  obtain r1 w1 where s1: "db_session (transform_prompts E did bk toc st sp ex) w = (r1, w1)"
    by (cases "db_session (transform_prompts E did bk toc st sp ex) w")
  have f1: "same_rows w w1 \<and> compile_log w1 = compile_log w"
    by (rule db_session_frame[OF s1]) (rule transform_prompts_frame)
  show ?thesis
  proof (cases "\<exists>p u. r1 = Ok (Some (p, u))")
    case False
    then have "w' = w1" using assms s1
      by (cases r1) (auto simp: transform_compute_def and_then_def split: option.splits)
    then show ?thesis using f1 by simp
  next
    case True
    then obtain p u where pu: "r1 = Ok (Some (p, u))" by blast
    obtain r2 w2 where c2: "call_llm_tex E S p u w1 = (r2, w2)" by (cases "call_llm_tex E S p u w1")
    note f2 = call_llm_tex_frame[OF c2]
    show ?thesis
    proof (cases "\<exists>t mo. r2 = Ok (t, mo)")
      case False
      then have "w' = w2" using assms s1 pu c2
        by (cases r2) (auto simp: transform_compute_def and_then_def)
      then show ?thesis using f1 f2 by (simp add: same_rows_def)
    next
      case True
      then obtain t mo where t: "r2 = Ok (t, mo)" by blast
      obtain r3 w3 where c3: "compile_with_repair E S did toc (make_full_tex E (extract_body E t) toc) w2 = (r3, w3)"
        by (cases "compile_with_repair E S did toc (make_full_tex E (extract_body E t) toc) w2")
      note f3 = compile_with_repair_frame[OF c3]
      have "w' = w3" using assms s1 pu c2 t c3
        by (cases r3) (auto simp: transform_compute_def and_then_def Let_def)
      then show ?thesis using f1 f2 f3 by (simp add: same_rows_def)
    qed
  qed
qed

lemma get_document_update:
  "(\<And>d. d_id (f d) = d_id d) \<Longrightarrow>
   get_document (update_document did f w) did = map_option f (get_document w did)"
proof -
  assume a: "\<And>d. d_id (f d) = d_id d"
  have "find (\<lambda>d. d_id d = did) (map (\<lambda>d. if d_id d = did then f d else d) xs)
        = map_option f (find (\<lambda>d. d_id d = did) xs)" for xs
    using a by (induction xs) auto
  then show ?thesis by (simp add: get_document_def update_document_def)
qed

lemma get_document_tick: "get_document (tick w) did = get_document w did"
  by (simp add: get_document_def tick_def)

lemma editor_active_world:
  "editor_active E d w = (b, w') \<Longrightarrow> w' = w \<or> w' = tick w"
  by (auto simp: editor_active_def tick_def Let_def split: if_splits option.splits)

lemma persist_inactive:
  assumes "get_document w did = Some d" and "\<not> fst (editor_active E d w)"
  shows "db_session (persist_if_active E S did full_tex) w
           = (Ok (), discard_result E did (snd (editor_active E d w)))"
proof -
  obtain b w' where e: "editor_active E d w = (b, w')" by (cases "editor_active E d w")
  then have "b = False" using assms(2) by simp
  then show ?thesis using assms(1) e by (simp add: persist_if_active_def db_session_def)
qed

text \<open>
  C3: a run of \<open>transform_tex_task\<close> that has computed and compiled its result
  (\<open>transform_compute\<close> returns \<open>full_tex\<close>) and finds the editor inactive in the last
  session returns normally, with the Version rows and the index exactly as they were
  when the job started and the document's status set to ready.
\<close>

theorem transform_discards_when_inactive:
  assumes "mark_processing E did w = (True, w1)"
    and "transform_compute E S did bk toc st sp ex w1 = (Ok (Some full_tex), w2)"
    and "get_document w2 did = Some d"
    and "\<not> fst (editor_active E d w2)"
  shows "transform_tex_task E S did bk toc st sp ex uid w
           = (Ok (), discard_result E did (snd (editor_active E d w2)))
    \<and> versions (snd (transform_tex_task E S did bk toc st sp ex uid w)) = versions w
    \<and> chunks_fts (snd (transform_tex_task E S did bk toc st sp ex uid w)) = chunks_fts w
    \<and> next_version_id (snd (transform_tex_task E S did bk toc st sp ex uid w)) = next_version_id w
    \<and> (\<exists>d'. get_document (snd (transform_tex_task E S did bk toc st sp ex uid w)) did = Some d'
           \<and> status d' = ''ready'' \<and> last_error d' = last_error d)"
proof -
  let ?w3 = "snd (editor_active E d w2)"
  let ?W = "discard_result E did ?w3"
  have p: "db_session (persist_if_active E S did full_tex) w2 = (Ok (), ?W)"
    by (rule persist_inactive[OF assms(3,4)])
  have b: "transform_body E S did bk toc st sp ex w1 = (Ok (), ?W)"
    using assms(2) p by (simp add: transform_body_def and_then_def)
  have t: "transform_tex_task E S did bk toc st sp ex uid w = (Ok (), ?W)"
    using assms(1) b by (simp add: transform_tex_task_def)
  have w3: "?w3 = w2 \<or> ?w3 = tick w2"
    using editor_active_world[of E d w2] by (cases "editor_active E d w2") auto
  have r1: "same_rows w w1" using mark_processing_frame[OF assms(1)] by simp
  have r2: "same_rows w1 w2" using transform_compute_frame[OF assms(2)] by simp
  have r3: "same_rows w2 ?W"
    using w3 by (auto simp: discard_result_def same_rows_def tick_def update_document_def map_d_id_upd)
  have r: "same_rows w ?W" using r1 r2 r3 same_rows_trans by blast
  have g3: "get_document ?w3 did = Some d" using w3 assms(3) by (auto simp: get_document_tick)
  have g: "get_document ?W did = Some (d\<lparr>status := ''ready'', d_updated_at := utc E ?w3\<rparr>)"
    unfolding discard_result_def get_document_tick
    by (subst get_document_update) (simp_all add: g3)
  show ?thesis unfolding t using r g by (simp add: same_rows_def)
qed

lemma stale_env_fields:
  "utcnow stale_env = (\<lambda>n. 200000000)"
  "extract_text_from_pdf stale_env = (\<lambda>n p. Inr [72, 105])"
  "post_chat stale_env = (\<lambda>n m s u. Inr [120])"
  "pick_models stale_env = (\<lambda>n. Inr [''m1'', ''m2''])"
  "subprocess_run stale_env n s = Inr (0, [], Some [37])"
  "str_lower stale_env = (\<lambda>s. s)"
  "extract_body stale_env = (\<lambda>s. s)"
  by (simp_all add: stale_env_def example_env_def subprocess_run_def)

lemma stale_llm:
  "call_llm_tex stale_env example_settings sp up w =
     (Ok ([120], ''m1''), w\<lparr>io_count := Suc (Suc (io_count w)),
                             llm_log := llm_log w @ [(''m1'', sp, up)]\<rparr>)"
  by (simp add: call_llm_tex_def model_candidates_def example_settings_def stale_env_fields
      strip_str_openrouter strip_str_auto tick_def Let_def)

lemma stale_compile:
  "compile_tex_to_pdf stale_env example_settings src out False w =
     (Ok (), w\<lparr>compile_log := compile_log w @ [src], io_count := Suc (io_count w),
               files := (files w)(out \<mapsto> [37])\<rparr>)"
proof -
  have "pass_count example_settings False = Suc 0"
    by (simp add: pass_count_def example_settings_def)
  then show ?thesis
    by (simp add: compile_tex_to_pdf_def stale_env_fields tick_def Let_def last_chars_def)
qed

lemma get_document_clean: "get_document w_clean 1 = Some example_doc"
  by (simp add: get_document_def w_clean_def w_empty_def example_doc_def)

lemma stale_mark:
  "mark_processing stale_env 1 w_clean = (True, snd (mark_processing stale_env 1 w_clean))"
  "get_document (snd (mark_processing stale_env 1 w_clean)) 1 = Some processing_doc"
proof -
  show "mark_processing stale_env 1 w_clean = (True, snd (mark_processing stale_env 1 w_clean))"
    using get_document_clean by (simp add: mark_processing_def)
  have "get_document (snd (mark_processing stale_env 1 w_clean)) 1
      = map_option (\<lambda>d. d\<lparr>status := ''processing'', last_error := None, d_updated_at := utc stale_env w_clean\<rparr>)
          (get_document w_clean 1)"
    using get_document_clean by (simp add: mark_processing_def get_document_tick get_document_update)
  then show "get_document (snd (mark_processing stale_env 1 w_clean)) 1 = Some processing_doc"
    using get_document_clean by (simp add: processing_doc_def utc_def stale_env_fields)
qed

lemma stale_prompts:
  assumes "get_document w 1 = Some processing_doc"
  shows "transform_prompts stale_env 1 ''original'' False False False [] w
     = (Ok (Some (system_prompt, build_user_prompt stale_env [72, 105] False False False False [])), w)"
  using assms
  by (simp add: transform_prompts_def original_input_def processing_doc_def example_doc_def
      and_then_def Let_def)

lemma stale_compute:
  assumes "get_document w 1 = Some processing_doc"
  shows "fst (transform_compute stale_env example_settings 1 ''original'' False False False [] w)
     = Ok (Some (make_full_tex stale_env [120] False))"
    and "documents (snd (transform_compute stale_env example_settings 1 ''original'' False False False [] w))
     = documents w"
    and "compile_log (snd (transform_compute stale_env example_settings 1 ''original'' False False False [] w))
     = compile_log w @ [make_full_tex stale_env [120] False]"
  using stale_prompts[OF assms]
  by (simp_all add: transform_compute_def db_session_def and_then_def
      stale_llm compile_with_repair_def stale_compile stale_env_fields Let_def)

lemma get_document_cong: "documents w' = documents w \<Longrightarrow> get_document w' did = get_document w did"
  by (simp add: get_document_def)

text \<open>A heartbeat that is 200 seconds old when the job finishes.\<close>

theorem transform_discards_when_inactive_witness:
  "\<not> fst (editor_active stale_env processing_doc
            (snd (transform_compute stale_env example_settings 1 ''original'' False False False []
                    (snd (mark_processing stale_env 1 w_clean)))))
   \<and> fst (transform_tex_task stale_env example_settings 1 ''original'' False False False [] 1 w_clean) = Ok ()
   \<and> versions (snd (transform_tex_task stale_env example_settings 1 ''original'' False False False [] 1 w_clean)) = []
   \<and> chunks_fts (snd (transform_tex_task stale_env example_settings 1 ''original'' False False False [] 1 w_clean)) = []
   \<and> (\<exists>d'. get_document (snd (transform_tex_task stale_env example_settings 1 ''original'' False False False [] 1 w_clean)) 1 = Some d'
         \<and> status d' = ''ready'')"
proof -
  let ?W1 = "snd (mark_processing stale_env 1 w_clean)"
  let ?W2 = "snd (transform_compute stale_env example_settings 1 ''original'' False False False [] ?W1)"
  have h1: "mark_processing stale_env 1 w_clean = (True, ?W1)" by (rule stale_mark(1))
  have h2: "transform_compute stale_env example_settings 1 ''original'' False False False [] ?W1
      = (Ok (Some (make_full_tex stale_env [120] False)), ?W2)"
    using stale_compute(1)[OF stale_mark(2)] by (simp add: prod_eq_iff)
  have h3: "get_document ?W2 1 = Some processing_doc"
    using get_document_cong[OF stale_compute(2)[OF stale_mark(2)]] stale_mark(2) by simp
  have h4: "\<not> fst (editor_active stale_env processing_doc ?W2)"
    by (simp add: editor_active_def processing_doc_def example_doc_def stale_env_fields Let_def)
  note t = transform_discards_when_inactive[OF h1 h2 h3 h4, of 1]
  have v: "versions w_clean = []" "chunks_fts w_clean = []" by (simp_all add: w_clean_def w_empty_def)
  show ?thesis using h4 t v by auto
qed

section \<open>The compile-retry bound\<close>

lemma persist_compile_log:
  assumes "db_session (persist_if_active E S did ft) w = (r, w')"
  shows "compile_log w' = compile_log w"
proof -
  have u: "compile_log (upsert_draft E did ft out plain w0) = compile_log w0" for out plain w0
    by (simp add: upsert_draft_def add_version_def update_version_def tick_def split: option.splits)
  have p: "compile_log (snd (persist_draft E did ft out w0)) = compile_log w0" for out w0
  proof -
    from fts_rebuild_result[of "tex_to_text E ft" did "''draft''" "upsert_draft E did ft out (tex_to_text E ft) w0"]
    obtain rows where "fts_rebuild did ''draft'' (tex_to_text E ft) (upsert_draft E did ft out (tex_to_text E ft) w0)
      = Some ((upsert_draft E did ft out (tex_to_text E ft) w0)\<lparr>chunks_fts :=
           filter (\<lambda>c. \<not> (c_doc_id c = did \<and> c_kind c = ''draft''))
             (chunks_fts (upsert_draft E did ft out (tex_to_text E ft) w0))
           @ map (insert_chunk did ''draft'') (enumerate 0 rows)\<rparr>)" by blast
    then show ?thesis by (simp add: persist_draft_def Let_def u tick_def update_document_def)
  qed
  have e: "compile_log (snd (editor_active E d w0)) = compile_log w0" for d w0
    by (simp add: editor_active_def Let_def split: option.splits)
  have b: "compile_log (snd (persist_if_active E S did ft w)) = compile_log w"
    by (auto simp: persist_if_active_def p e discard_result_def tick_def update_document_def
        split: option.splits prod.splits bool.splits)
       (metis e snd_conv)+
  obtain r1 w1 where x: "persist_if_active E S did ft w = (r1, w1)" by (cases "persist_if_active E S did ft w")
  then have "compile_log w1 = compile_log w" using b by simp
  then show ?thesis using assms x by (cases r1) (auto simp: db_session_def)
qed

lemma transform_body_compile_log:
  assumes "transform_body E S did bk toc st sp ex w = (r, w')"
  shows "length (compile_log w') \<le> length (compile_log w) + 2"
proof -
  obtain r1 w1 where c: "transform_compute E S did bk toc st sp ex w = (r1, w1)"
    by (cases "transform_compute E S did bk toc st sp ex w")
  note f = transform_compute_frame[OF c]
  show ?thesis
  proof (cases "\<exists>ft. r1 = Ok (Some ft)")
    case False
    then have "w' = w1" using assms c
      by (cases r1) (auto simp: transform_body_def and_then_def split: option.splits)
    then show ?thesis using f by simp
  next
    case True
    then obtain ft where ft: "r1 = Ok (Some ft)" by blast
    then have "db_session (persist_if_active E S did ft) w1 = (r, w')"
      using assms c by (simp add: transform_body_def and_then_def)
    from persist_compile_log[OF this] f show ?thesis by simp
  qed
qed

lemma transform_task_compile_log:
  "length (compile_log (snd (transform_tex_task E S did bk toc st sp ex uid w)))
     \<le> length (compile_log w) + 2"
proof -
  obtain b w1 where m: "mark_processing E did w = (b, w1)" by (cases "mark_processing E did w")
  note f1 = mark_processing_frame[OF m]
  show ?thesis
  proof (cases b)
    case False
    then show ?thesis using m f1 by (simp add: transform_tex_task_def)
  next
    case True
    obtain r2 w2 where t: "transform_body E S did bk toc st sp ex w1 = (r2, w2)"
      by (cases "transform_body E S did bk toc st sp ex w1")
    note f2 = transform_body_compile_log[OF t]
    show ?thesis using m True t f1 f2 mark_error_frame[of w2 E did]
      by (cases r2) (simp_all add: transform_tex_task_def)
  qed
qed

text \<open>
  C1 (as amended): every run of \<open>transform_tex_task\<close> calls the compiler at most twice.
  Only a \<open>LatexCompileError\<close> of the first compilation of \<open>ft\<close> opens the one repair round,
  which sends the diagnostic and the whole failed source to the rewrite service. If that
  call returns \<open>tex_fixed\<close>, its body is wrapped again in the preamble, the optional contents
  block and the document end, and that source is compiled: exactly two compilations, and
  a failure of the second leaves the round as it is raised. If the repair call itself
  fails, its error leaves the round and the single compilation stays the only one. Any
  other error of the first compilation leaves the round at once, with no repair request
  and no second compilation. An error that leaves the round reaches the job's handler,
  which records it and raises it again, without a third compilation.
\<close>

theorem transform_compile_retry_bound:
  "length (compile_log (snd (transform_tex_task E S did bk toc st sp ex uid w)))
     \<le> length (compile_log w) + 2
   \<and> (\<forall>m w1. compile_tex_to_pdf E S ft (generated_pdf_path S did ''draft'') toc w0
                 = (Raise (LatexCompileError m), w1) \<longrightarrow>
        (\<forall>tex_fixed mid w2.
            call_llm_tex E S repair_system (repair_head @ m @ repair_mid @ ft @ repair_tail) w1
              = (Ok (tex_fixed, mid), w2) \<longrightarrow>
            compile_log (snd (compile_with_repair E S did toc ft w0))
              = compile_log w0 @ [ft, (preamble @ begin_document @ (if toc then toc_block @ [10, 10] else [])
                    @ sanitize_body E (extract_body E tex_fixed) @ end_document)]
            \<and> (\<forall>e w3. compile_tex_to_pdf E S (preamble @ begin_document @ (if toc then toc_block @ [10, 10] else [])
                    @ sanitize_body E (extract_body E tex_fixed) @ end_document)
                         (generated_pdf_path S did ''draft'') toc w2 = (Raise e, w3) \<longrightarrow>
                  compile_with_repair E S did toc ft w0 = (Raise e, w3))
            \<and> (\<forall>w3. compile_tex_to_pdf E S (preamble @ begin_document @ (if toc then toc_block @ [10, 10] else [])
                    @ sanitize_body E (extract_body E tex_fixed) @ end_document)
                         (generated_pdf_path S did ''draft'') toc w2 = (Ok (), w3) \<longrightarrow>
                  compile_with_repair E S did toc ft w0 = (Ok (preamble @ begin_document @ (if toc then toc_block @ [10, 10] else [])
                    @ sanitize_body E (extract_body E tex_fixed) @ end_document), w3)))
        \<and> (\<forall>e w2.
            call_llm_tex E S repair_system (repair_head @ m @ repair_mid @ ft @ repair_tail) w1
              = (Raise e, w2) \<longrightarrow>
            compile_with_repair E S did toc ft w0 = (Raise e, w2)
            \<and> compile_log w2 = compile_log w0 @ [ft]))
   \<and> (\<forall>e w1. compile_tex_to_pdf E S ft (generated_pdf_path S did ''draft'') toc w0 = (Raise e, w1)
               \<and> (\<forall>m. e \<noteq> LatexCompileError m) \<longrightarrow>
        compile_with_repair E S did toc ft w0 = (Raise e, w1)
        \<and> compile_log w1 = compile_log w0 @ [ft] \<and> llm_log w1 = llm_log w0)
   \<and> (\<forall>p u tex_raw mo e w1 w2 w3 w4.
        mark_processing E did w = (True, w1)
        \<and> db_session (transform_prompts E did bk toc st sp ex) w1 = (Ok (Some (p, u)), w2)
        \<and> call_llm_tex E S p u w2 = (Ok (tex_raw, mo), w3)
        \<and> compile_with_repair E S did toc (make_full_tex E (extract_body E tex_raw) toc) w3
             = (Raise e, w4) \<longrightarrow>
        transform_tex_task E S did bk toc st sp ex uid w = (Raise e, mark_error E did (str_exn e) w4))"
proof (intro conjI allI impI)
  show "length (compile_log (snd (transform_tex_task E S did bk toc st sp ex uid w)))
     \<le> length (compile_log w) + 2"
    by (rule transform_task_compile_log)
next
  fix m w1 tex_fixed mid w2
  assume c1: "compile_tex_to_pdf E S ft (generated_pdf_path S did ''draft'') toc w0
                 = (Raise (LatexCompileError m), w1)"
    and l: "call_llm_tex E S repair_system (repair_head @ m @ repair_mid @ ft @ repair_tail) w1
              = (Ok (tex_fixed, mid), w2)"
  let ?ft2 = "(preamble @ begin_document @ (if toc then toc_block @ [10, 10] else [])
                    @ sanitize_body E (extract_body E tex_fixed) @ end_document)"
  let ?out = "generated_pdf_path S did ''draft''"
  obtain r3 w3 where c2: "compile_tex_to_pdf E S ?ft2 ?out toc w2 = (r3, w3)"
    by (cases "compile_tex_to_pdf E S ?ft2 ?out toc w2")
  have w: "snd (compile_with_repair E S did toc ft w0) = w3"
    using c1 l c2
    by (cases r3) (simp_all add: compile_with_repair_def make_full_tex_def and_then_def
        repair_user_def Let_def)
  show "compile_log (snd (compile_with_repair E S did toc ft w0)) = compile_log w0 @ [ft, ?ft2]"
    unfolding w using compile_frame[OF c1] call_llm_tex_frame[OF l] compile_frame[OF c2] by simp
next
  fix m w1 tex_fixed mid w2 e w3
  assume "compile_tex_to_pdf E S ft (generated_pdf_path S did ''draft'') toc w0
                 = (Raise (LatexCompileError m), w1)"
    "call_llm_tex E S repair_system (repair_head @ m @ repair_mid @ ft @ repair_tail) w1
              = (Ok (tex_fixed, mid), w2)"
    "compile_tex_to_pdf E S (preamble @ begin_document @ (if toc then toc_block @ [10, 10] else [])
                    @ sanitize_body E (extract_body E tex_fixed) @ end_document)
                         (generated_pdf_path S did ''draft'') toc w2 = (Raise e, w3)"
  then show "compile_with_repair E S did toc ft w0 = (Raise e, w3)"
    by (simp add: compile_with_repair_def make_full_tex_def and_then_def repair_user_def Let_def)
next
  fix m w1 tex_fixed mid w2 w3
  assume "compile_tex_to_pdf E S ft (generated_pdf_path S did ''draft'') toc w0
                 = (Raise (LatexCompileError m), w1)"
    "call_llm_tex E S repair_system (repair_head @ m @ repair_mid @ ft @ repair_tail) w1
              = (Ok (tex_fixed, mid), w2)"
    "compile_tex_to_pdf E S (preamble @ begin_document @ (if toc then toc_block @ [10, 10] else [])
                    @ sanitize_body E (extract_body E tex_fixed) @ end_document)
                         (generated_pdf_path S did ''draft'') toc w2 = (Ok (), w3)"
  then show "compile_with_repair E S did toc ft w0 = (Ok (preamble @ begin_document @ (if toc then toc_block @ [10, 10] else [])
                    @ sanitize_body E (extract_body E tex_fixed) @ end_document), w3)"
    by (simp add: compile_with_repair_def make_full_tex_def and_then_def repair_user_def Let_def)
next
  fix m w1 e w2
  assume c1: "compile_tex_to_pdf E S ft (generated_pdf_path S did ''draft'') toc w0
                 = (Raise (LatexCompileError m), w1)"
    and l: "call_llm_tex E S repair_system (repair_head @ m @ repair_mid @ ft @ repair_tail) w1
              = (Raise e, w2)"
  then show "compile_with_repair E S did toc ft w0 = (Raise e, w2)"
    by (simp add: compile_with_repair_def and_then_def repair_user_def Let_def)
  show "compile_log w2 = compile_log w0 @ [ft]"
    using compile_frame[OF c1] call_llm_tex_frame[OF l] by simp
next
  fix e w1
  assume a: "compile_tex_to_pdf E S ft (generated_pdf_path S did ''draft'') toc w0 = (Raise e, w1)
               \<and> (\<forall>m. e \<noteq> LatexCompileError m)"
  then show "compile_with_repair E S did toc ft w0 = (Raise e, w1)"
    by (cases e) (simp_all add: compile_with_repair_def Let_def)
  show "compile_log w1 = compile_log w0 @ [ft]" "llm_log w1 = llm_log w0"
    using compile_frame[OF a[THEN conjunct1]] by simp_all
next
  fix p u tex_raw mo e w1 w2 w3 w4
  assume "mark_processing E did w = (True, w1)
        \<and> db_session (transform_prompts E did bk toc st sp ex) w1 = (Ok (Some (p, u)), w2)
        \<and> call_llm_tex E S p u w2 = (Ok (tex_raw, mo), w3)
        \<and> compile_with_repair E S did toc (make_full_tex E (extract_body E tex_raw) toc) w3
             = (Raise e, w4)"
  then show "transform_tex_task E S did bk toc st sp ex uid w = (Raise e, mark_error E did (str_exn e) w4)"
    by (simp add: transform_tex_task_def transform_body_def transform_compute_def and_then_def Let_def)
qed

lemma example_prompts:
  assumes "get_document w 1 = Some d" and "extracted_text d = Some [72, 105]"
  shows "transform_prompts E 1 ''original'' False False False [] w
     = (Ok (Some (system_prompt, build_user_prompt E [72, 105] False False False False [])), w)"
  using assms
  by (simp add: transform_prompts_def original_input_def and_then_def Let_def)

lemma llm_answers:
  assumes "post_chat E = (\<lambda>n m s u. Inr [120])" and "pick_models E = (\<lambda>n. Inr [''m1'', ''m2''])"
    and "str_lower E = (\<lambda>s. s)"
  shows "call_llm_tex E example_settings sp up w =
     (Ok ([120], ''m1''), w\<lparr>io_count := Suc (Suc (io_count w)),
                             llm_log := llm_log w @ [(''m1'', sp, up)]\<rparr>)"
  using assms
  by (simp add: call_llm_tex_def model_candidates_def example_settings_def
      strip_str_openrouter strip_str_auto tick_def Let_def)

lemma latex_fails:
  assumes "\<And>n s. subprocess_run E n s = Inr (1, [101], None)"
  shows "compile_tex_to_pdf E example_settings src out False w =
     (Raise (LatexCompileError [101]),
      w\<lparr>compile_log := compile_log w @ [src], io_count := Suc (io_count w)\<rparr>)"
proof -
  have "pass_count example_settings False = Suc 0"
    by (simp add: pass_count_def example_settings_def)
  then show ?thesis using assms
    by (simp add: compile_tex_to_pdf_def last_chars_def tick_def Let_def)
qed

lemma failing_latex_run:
  assumes "latex_run E = failing_latex" and "decode_output E = (\<lambda>b. Inr b)"
  shows "subprocess_run E n s = Inr (1, [101], None)"
  using assms by (simp add: subprocess_run_def failing_latex_def)

lemma garbled_compile:
  "compile_tex_to_pdf garbled_env example_settings src out False w =
     (Raise (UnicodeDecodeError [117, 116, 102]),
      w\<lparr>compile_log := compile_log w @ [src], io_count := Suc (io_count w)\<rparr>)"
proof -
  have "pass_count example_settings False = Suc 0"
    by (simp add: pass_count_def example_settings_def)
  moreover have "subprocess_run garbled_env n s = Inl (UnicodeDecodeError [117, 116, 102])" for n s
    by (simp add: subprocess_run_def garbled_env_def example_env_def garbled_latex_def
        strict_decode_def)
  ultimately show ?thesis
    by (simp add: compile_tex_to_pdf_def tick_def Let_def)
qed

lemma one_answer_first:
  assumes "post_chat E = one_answer_chat" and "pick_models E = (\<lambda>n. Inr [''m1'', ''m2''])"
    and "str_lower E = (\<lambda>s. s)" and "io_count w = Suc 0"
  shows "call_llm_tex E example_settings sp up w =
     (Ok ([120], ''m1''), w\<lparr>io_count := 3, llm_log := llm_log w @ [(''m1'', sp, up)]\<rparr>)"
  using assms
  by (simp add: call_llm_tex_def model_candidates_def example_settings_def one_answer_chat_def
      strip_str_openrouter strip_str_auto tick_def Let_def)

lemma one_answer_later:
  assumes "post_chat E = one_answer_chat" and "pick_models E = (\<lambda>n. Inr [''m1'', ''m2''])"
    and "str_lower E = (\<lambda>s. s)" and "2 < io_count w"
  shows "call_llm_tex E example_settings sp up w =
     (Raise (RuntimeError [101]),
      w\<lparr>io_count := io_count w + 3,
        llm_log := llm_log w @ [(''m1'', sp, up), (''m2'', sp, up)]\<rparr>)"
  using assms
  by (simp add: call_llm_tex_def model_candidates_def example_settings_def one_answer_chat_def
      strip_str_openrouter strip_str_auto tick_def str_exn.simps Let_def)

lemma unrepairable_fields:
  "latex_run unrepairable_env = failing_latex" "decode_output unrepairable_env = (\<lambda>b. Inr b)"
  "post_chat unrepairable_env = one_answer_chat"
  "pick_models unrepairable_env = (\<lambda>n. Inr [''m1'', ''m2''])"
  "str_lower unrepairable_env = (\<lambda>s. s)" "extract_body unrepairable_env = (\<lambda>s. s)"
  "utcnow unrepairable_env = (\<lambda>n. 0)"
  by (simp_all add: unrepairable_env_def example_env_def)

lemma unrepairable_mark:
  "\<exists>W1. mark_processing unrepairable_env 1 w_clean = (True, W1)
     \<and> get_document W1 1
         = Some (example_doc\<lparr>status := ''processing'', last_error := None, d_updated_at := 0\<rparr>)
     \<and> io_count W1 = Suc 0 \<and> compile_log W1 = [] \<and> llm_log W1 = []"
proof -
  let ?E = unrepairable_env
  obtain W1 where m: "mark_processing ?E 1 w_clean = (True, W1)"
    using get_document_clean by (simp add: mark_processing_def)
  have "get_document (snd (mark_processing ?E 1 w_clean)) 1
      = map_option (\<lambda>d. d\<lparr>status := ''processing'', last_error := None, d_updated_at := utc ?E w_clean\<rparr>)
          (get_document w_clean 1)"
    using get_document_clean by (simp add: mark_processing_def get_document_tick get_document_update)
  then have g1: "get_document W1 1
      = Some (example_doc\<lparr>status := ''processing'', last_error := None, d_updated_at := 0\<rparr>)"
    using get_document_clean m by (simp add: utc_def unrepairable_fields)
  have i1: "io_count W1 = Suc 0" "compile_log W1 = []" "llm_log W1 = []"
    using m get_document_clean
    by (auto simp: mark_processing_def update_document_def tick_def w_clean_def w_empty_def)
  show ?thesis using m g1 i1 by blast
qed

lemma unrepairable_round:
  assumes "2 < io_count w"
  shows "compile_with_repair unrepairable_env example_settings 1 False ft w
     = (Raise (RuntimeError [101]),
        w\<lparr>compile_log := compile_log w @ [ft], io_count := io_count w + 4,
          llm_log := llm_log w
            @ [(''m1'', repair_system, repair_head @ [101] @ repair_mid @ ft @ repair_tail),
               (''m2'', repair_system, repair_head @ [101] @ repair_mid @ ft @ repair_tail)]\<rparr>)"
proof -
  note cf = latex_fails[of unrepairable_env, OF failing_latex_run[OF unrepairable_fields(1,2)]]
  note lb = one_answer_later[OF unrepairable_fields(3,4,5)]
  show ?thesis using assms
    by (simp add: compile_with_repair_def cf lb and_then_def repair_user_def str_exn.simps Let_def)
qed

text \<open>
  An engine that exits 1 on every pass, with a rewrite service that answers: two
  compilations, then the error. The same engine with a rewrite service that fails on the
  repair request: one compilation. An engine whose output does not decode: one
  compilation and no repair request.
\<close>

theorem transform_compile_retry_bound_witness:
  "fst (compile_tex_to_pdf broken_latex_env example_settings [120]
         (generated_pdf_path example_settings 1 ''draft'') False w_clean)
     = Raise (LatexCompileError [101])
   \<and> fst (compile_with_repair broken_latex_env example_settings 1 False [120] w_clean)
     = Raise (LatexCompileError [101])
   \<and> compile_log (snd (compile_with_repair broken_latex_env example_settings 1 False [120] w_clean))
     = [[120], preamble @ begin_document @ sanitize_body broken_latex_env [120] @ end_document]
   \<and> length (compile_log (snd (transform_tex_task broken_latex_env example_settings 1 ''original''
        False False False [] 1 w_clean))) \<le> 2
   \<and> fst (compile_tex_to_pdf unrepairable_env example_settings [120]
         (generated_pdf_path example_settings 1 ''draft'') False (w_clean\<lparr>io_count := 3\<rparr>))
     = Raise (LatexCompileError [101])
   \<and> fst (compile_with_repair unrepairable_env example_settings 1 False [120] (w_clean\<lparr>io_count := 3\<rparr>))
     = Raise (RuntimeError [101])
   \<and> compile_log (snd (compile_with_repair unrepairable_env example_settings 1 False [120]
        (w_clean\<lparr>io_count := 3\<rparr>))) = [[120]]
   \<and> fst (compile_tex_to_pdf garbled_env example_settings [120]
         (generated_pdf_path example_settings 1 ''draft'') False w_clean)
     = Raise (UnicodeDecodeError [117, 116, 102])
   \<and> compile_with_repair garbled_env example_settings 1 False [120] w_clean
     = (Raise (UnicodeDecodeError [117, 116, 102]), w_clean\<lparr>compile_log := [[120]], io_count := 1\<rparr>)
   \<and> fst (mark_processing unrepairable_env 1 w_clean)
   \<and> fst (transform_tex_task unrepairable_env example_settings 1 ''original''
          False False False [] 1 w_clean) = Raise (RuntimeError [101])"
proof -
  let ?E = broken_latex_env and ?S = example_settings
  let ?out = "generated_pdf_path example_settings 1 ''draft''"
  have fl: "latex_run ?E = failing_latex" and fd: "decode_output ?E = (\<lambda>b. Inr b)"
    and fp: "post_chat ?E = (\<lambda>n m s u. Inr [120])"
    and fm: "pick_models ?E = (\<lambda>n. Inr [''m1'', ''m2''])" and fs: "str_lower ?E = (\<lambda>s. s)"
    and fb: "extract_body ?E = (\<lambda>s. s)"
    by (simp_all add: broken_latex_env_def example_env_def)
  note sr = failing_latex_run[OF fl fd]
  note c1 = latex_fails[of ?E "[120]" ?out w_clean, OF sr]
  note l = llm_answers[OF fp fm fs, of repair_system "repair_head @ [101] @ repair_mid @ [120] @ repair_tail"
      "w_clean\<lparr>compile_log := compile_log w_clean @ [[120]], io_count := Suc (io_count w_clean)\<rparr>"]
  note c2 = latex_fails[of ?E
      "preamble @ begin_document @ (if False then toc_block @ [10, 10] else [])
         @ sanitize_body ?E (extract_body ?E [120]) @ end_document" ?out
      "w_clean\<lparr>compile_log := compile_log w_clean @ [[120]], io_count := Suc (io_count w_clean),
         io_count := Suc (Suc (io_count (w_clean\<lparr>compile_log := compile_log w_clean @ [[120]],
            io_count := Suc (io_count w_clean)\<rparr>))),
         llm_log := llm_log (w_clean\<lparr>compile_log := compile_log w_clean @ [[120]],
            io_count := Suc (io_count w_clean)\<rparr>)
           @ [(''m1'', repair_system, repair_head @ [101] @ repair_mid @ [120] @ repair_tail)]\<rparr>", OF sr]
  note t = transform_compile_retry_bound[where E="?E" and S="?S" and did=1 and toc=False
      and ft="[120]" and ?w0.0=w_clean and bk="''original''" and st=False and sp=False
      and ex="[]" and uid=1 and w=w_clean]
  have b: "length (compile_log (snd (transform_tex_task ?E ?S 1 ''original''
        False False False [] 1 w_clean))) \<le> 2"
    using t[THEN conjunct1] by (simp add: w_clean_def w_empty_def)
  note r = t[THEN conjunct2, THEN conjunct1, rule_format, OF c1, THEN conjunct1, rule_format, OF l]
  have 2: "compile_log (snd (compile_with_repair ?E ?S 1 False [120] w_clean))
     = [[120], preamble @ begin_document @ sanitize_body ?E [120] @ end_document]"
    using r[THEN conjunct1] by (simp add: fb w_clean_def w_empty_def)
  have 3: "fst (compile_with_repair ?E ?S 1 False [120] w_clean) = Raise (LatexCompileError [101])"
    using r[THEN conjunct2, THEN conjunct1, rule_format, OF c2] by simp
  let ?U = unrepairable_env and ?w3 = "w_clean\<lparr>io_count := 3\<rparr>"
  have ul: "latex_run ?U = failing_latex" and ud: "decode_output ?U = (\<lambda>b. Inr b)"
    and up: "post_chat ?U = one_answer_chat"
    and um: "pick_models ?U = (\<lambda>n. Inr [''m1'', ''m2''])" and us: "str_lower ?U = (\<lambda>s. s)"
    by (simp_all add: unrepairable_env_def example_env_def)
  note d1 = latex_fails[of ?U "[120]" ?out ?w3, OF failing_latex_run[OF ul ud]]
  have "2 < io_count (?w3\<lparr>compile_log := compile_log ?w3 @ [[120]], io_count := Suc (io_count ?w3)\<rparr>)"
    by simp
  note k = one_answer_later[OF up um us this, of repair_system
      "repair_head @ [101] @ repair_mid @ [120] @ repair_tail"]
  note tu = transform_compile_retry_bound[where E="?U" and S="?S" and did=1 and toc=False
      and ft="[120]" and ?w0.0="?w3"]
  note ru = tu[THEN conjunct2, THEN conjunct1, rule_format, OF d1, THEN conjunct2, rule_format, OF k]
  have 4: "fst (compile_with_repair ?U ?S 1 False [120] ?w3) = Raise (RuntimeError [101])"
    using ru[THEN conjunct1] by simp
  have 5: "compile_log (snd (compile_with_repair ?U ?S 1 False [120] ?w3)) = [[120]]"
    using ru[THEN conjunct1] by (simp add: w_clean_def w_empty_def)
  note g1 = garbled_compile[of "[120]" ?out w_clean]
  note tg = transform_compile_retry_bound[where E=garbled_env and S="?S" and did=1 and toc=False
      and ft="[120]" and ?w0.0=w_clean]
  have "compile_tex_to_pdf garbled_env ?S [120] ?out False w_clean
      = (Raise (UnicodeDecodeError [117, 116, 102]),
         w_clean\<lparr>compile_log := compile_log w_clean @ [[120]], io_count := Suc (io_count w_clean)\<rparr>)
     \<and> (\<forall>m. UnicodeDecodeError [117, 116, 102] \<noteq> LatexCompileError m)"
    using g1 by simp
  note rg = tg[THEN conjunct2, THEN conjunct2, THEN conjunct1, rule_format, OF this]
  have 6: "compile_with_repair garbled_env ?S 1 False [120] w_clean
     = (Raise (UnicodeDecodeError [117, 116, 102]), w_clean\<lparr>compile_log := [[120]], io_count := 1\<rparr>)"
    using rg[THEN conjunct1] by (simp add: w_clean_def w_empty_def)
  from unrepairable_mark obtain W1 where
    m: "mark_processing ?U 1 w_clean = (True, W1)"
    and gd: "get_document W1 1
         = Some (example_doc\<lparr>status := ''processing'', last_error := None, d_updated_at := 0\<rparr>)"
    and i1: "io_count W1 = Suc 0" by blast
  have x: "extracted_text (example_doc\<lparr>status := ''processing'', last_error := None,
      d_updated_at := 0\<rparr>) = Some [72, 105]"
    by (simp add: example_doc_def)
  let ?up = "build_user_prompt ?U [72, 105] False False False False []"
  have pr: "db_session (transform_prompts ?U 1 ''original'' False False False []) W1
      = (Ok (Some (system_prompt, ?up)), W1)"
    using example_prompts[OF gd x, of ?U] by (simp add: db_session_def)
  note la = one_answer_first[OF up um us i1, of system_prompt ?up]
  have "2 < io_count (W1\<lparr>io_count := 3, llm_log := llm_log W1 @ [(''m1'', system_prompt, ?up)]\<rparr>)"
    by simp
  note cr = unrepairable_round[OF this, of "make_full_tex ?U (extract_body ?U [120]) False"]
  note tj = transform_compile_retry_bound[where E="?U" and S="?S" and did=1 and toc=False
      and bk="''original''" and st=False and sp=False and ex="[]" and uid=1 and w=w_clean]
  note rj = tj[THEN conjunct2, THEN conjunct2, THEN conjunct2, rule_format,
      OF conjI[OF m conjI[OF pr conjI[OF la cr]]]]
  have 7: "fst (transform_tex_task ?U ?S 1 ''original'' False False False [] 1 w_clean)
      = Raise (RuntimeError [101])"
    using rj by simp
  have 8: "fst (mark_processing ?U 1 w_clean)" using m by simp
  show ?thesis using c1 b 2 3 d1 4 5 g1 6 7 8 by simp
qed

text \<open>
  C1 as stated fails when the repair request itself fails. The job's first request is
  answered and the source compiled from it exits 1; the rewrite service then fails on
  the repair request, so nothing is re-wrapped and the job raises that
  \<open>RuntimeError\<close> after its only compilation.
\<close>

theorem repair_call_fails_counterexample:
  "fst (transform_tex_task unrepairable_env example_settings 1 ''original''
          False False False [] 1 w_clean) = Raise (RuntimeError [101])
   \<and> compile_log (snd (transform_tex_task unrepairable_env example_settings 1 ''original''
          False False False [] 1 w_clean))
       = [preamble @ begin_document @ sanitize_body unrepairable_env [120] @ end_document]
   \<and> map (fst \<circ> snd) (llm_log (snd (transform_tex_task unrepairable_env example_settings 1 ''original''
          False False False [] 1 w_clean)))
       = [system_prompt, repair_system, repair_system]"
proof -
  let ?E = unrepairable_env and ?S = example_settings
  let ?d = "example_doc\<lparr>status := ''processing'', last_error := None, d_updated_at := 0\<rparr>"
  let ?ft = "preamble @ begin_document @ sanitize_body ?E [120] @ end_document"
  let ?up = "build_user_prompt ?E [72, 105] False False False False []"
  from unrepairable_mark obtain W1 where
    m: "mark_processing ?E 1 w_clean = (True, W1)" and g1: "get_document W1 1 = Some ?d"
    and i1: "io_count W1 = Suc 0" "compile_log W1 = []" "llm_log W1 = []" by blast
  have x: "extracted_text ?d = Some [72, 105]" by (simp add: example_doc_def)
  note pr = example_prompts[OF g1 x, of ?E]
  note la = one_answer_first[OF unrepairable_fields(3,4,5)]
  have c: "transform_compute ?E ?S 1 ''original'' False False False [] W1
     = (Raise (RuntimeError [101]),
        W1\<lparr>io_count := 7, compile_log := [?ft],
           llm_log := [(''m1'', system_prompt, ?up),
              (''m1'', repair_system, repair_head @ [101] @ repair_mid @ ?ft @ repair_tail),
              (''m2'', repair_system, repair_head @ [101] @ repair_mid @ ?ft @ repair_tail)]\<rparr>)"
    using pr i1 unrepairable_round[of "W1\<lparr>io_count := 3,
        llm_log := llm_log W1 @ [(''m1'', system_prompt, ?up)]\<rparr>" ?ft]
    by (simp add: transform_compute_def db_session_def and_then_def la
        unrepairable_fields make_full_tex_def Let_def)
  have t: "transform_tex_task ?E ?S 1 ''original'' False False False [] 1 w_clean
     = (Raise (RuntimeError [101]), mark_error ?E 1 (str_exn (RuntimeError [101]))
        (W1\<lparr>io_count := 7, compile_log := [?ft],
           llm_log := [(''m1'', system_prompt, ?up),
              (''m1'', repair_system, repair_head @ [101] @ repair_mid @ ?ft @ repair_tail),
              (''m2'', repair_system, repair_head @ [101] @ repair_mid @ ?ft @ repair_tail)]\<rparr>))"
    using m c by (simp add: transform_tex_task_def transform_body_def and_then_def)
  show ?thesis unfolding t
    by (simp add: mark_error_def update_document_def tick_def split: option.splits)
qed

section \<open>Error capture in the jobs\<close>

lemma persist_active:
  assumes "get_document w did = Some d" and "fst (editor_active E d w)"
  shows "\<exists>rows. chunk_text (tex_to_text E ft) 1000 = Some rows
     \<and> fst (db_session (persist_if_active E S did ft) w) = Ok ()
     \<and> chunks_fts (snd (db_session (persist_if_active E S did ft) w))
         = filter (\<lambda>c. \<not> (c_doc_id c = did \<and> c_kind c = ''draft'')) (chunks_fts w)
           @ map (insert_chunk did ''draft'') (enumerate 0 rows)"
proof -
  obtain w1 where e: "editor_active E d w = (True, w1)"
    using assms(2) by (cases "editor_active E d w") auto
  have c1: "chunks_fts w1 = chunks_fts w"
    using editor_active_world[OF e] by (auto simp: tick_def)
  let ?out = "generated_pdf_path S did ''draft''"
  let ?plain = "tex_to_text E ft"
  let ?w2 = "upsert_draft E did ft ?out ?plain w1"
  have c2: "chunks_fts ?w2 = chunks_fts w1"
    by (simp add: upsert_draft_def add_version_def update_version_def tick_def split: option.splits)
  from fts_rebuild_result[of ?plain did "''draft''" ?w2] obtain rows where
    r: "chunk_text ?plain 1000 = Some rows"
       "fts_rebuild did ''draft'' ?plain ?w2 =
          Some (?w2\<lparr>chunks_fts := filter (\<lambda>c. \<not> (c_doc_id c = did \<and> c_kind c = ''draft'')) (chunks_fts ?w2)
                    @ map (insert_chunk did ''draft'') (enumerate 0 rows)\<rparr>)" by blast
  have "persist_if_active E S did ft w = persist_draft E did ft ?out w1"
    using assms(1) e by (simp add: persist_if_active_def)
  then have "fst (db_session (persist_if_active E S did ft) w) = Ok ()
     \<and> chunks_fts (snd (db_session (persist_if_active E S did ft) w))
         = filter (\<lambda>c. \<not> (c_doc_id c = did \<and> c_kind c = ''draft'')) (chunks_fts w)
           @ map (insert_chunk did ''draft'') (enumerate 0 rows)"
    using r(2) c1 c2
    by (simp add: db_session_def persist_draft_def Let_def tick_def update_document_def)
  then show ?thesis using r(1) by blast
qed

lemma latex_succeeds:
  assumes "\<And>n s. subprocess_run E n s = Inr (0, [], Some [37])"
  shows "compile_tex_to_pdf E example_settings src out False w =
     (Ok (), w\<lparr>compile_log := compile_log w @ [src], io_count := Suc (io_count w),
               files := (files w)(out \<mapsto> [37])\<rparr>)"
proof -
  have "pass_count example_settings False = Suc 0"
    by (simp add: pass_count_def example_settings_def)
  then show ?thesis using assms
    by (simp add: compile_tex_to_pdf_def last_chars_def tick_def Let_def)
qed

lemma example_compute:
  assumes "get_document w 1 = Some d" and "extracted_text d = Some [72, 105]"
    and "post_chat E = (\<lambda>n m s u. Inr [120])" and "pick_models E = (\<lambda>n. Inr [''m1'', ''m2''])"
    and "str_lower E = (\<lambda>s. s)" and "extract_body E = (\<lambda>s. s)"
    and "\<And>n s. subprocess_run E n s = Inr (0, [], Some [37])"
  shows "fst (transform_compute E example_settings 1 ''original'' False False False [] w)
     = Ok (Some (make_full_tex E [120] False))"
    and "documents (snd (transform_compute E example_settings 1 ''original'' False False False [] w))
     = documents w"
    and "chunks_fts (snd (transform_compute E example_settings 1 ''original'' False False False [] w))
     = chunks_fts w"
  using example_prompts[OF assms(1,2), of E] assms(6)
  by (simp_all add: transform_compute_def db_session_def and_then_def
      llm_answers[OF assms(3,4,5)] compile_with_repair_def latex_succeeds[OF assms(7)] Let_def)

lemma promote_example_documents:
  "documents (snd (promote_draft_to_saved example_env example_settings 1 w_draft)) = [example_doc]"
  "map content (filter (\<lambda>c. c_doc_id c = 1 \<and> c_kind c = ''draft'')
     (chunks_fts (snd (promote_draft_to_saved example_env example_settings 1 w_draft)))) = [[72, 105]]"
  by (simp_all add: promote_draft_to_saved_def db_session_def promote_body_def get_document_def
      first_version_def w_draft_def w_empty_def example_doc_def example_version_def
      evict_saved_def copy_artifact_def path_exists_def example_paths example_paths_Suc
      update_version_def tick_def utc_def example_env_def os_remove_def fts_rebuild_def
      delete_chunks_def chunk_text_Hi insert_chunk_def str_nat_small update_document_def Let_def)

lemma transform_replaces_draft_chunks:
  assumes "documents w = [example_doc]"
  shows "fst (transform_tex_task renaming_env example_settings 1 ''original'' False False False [] 1 w) = Ok ()"
    and "map content (filter (\<lambda>c. c_doc_id c = 1 \<and> c_kind c = ''draft'')
      (chunks_fts (snd (transform_tex_task renaming_env example_settings 1 ''original'' False False False [] 1 w))))
     = [[78, 101, 119]]"
proof -
  let ?E = renaming_env
  let ?d = "example_doc\<lparr>status := ''processing'', last_error := None, d_updated_at := 0\<rparr>"
  have fields: "post_chat ?E = (\<lambda>n m s u. Inr [120])" "pick_models ?E = (\<lambda>n. Inr [''m1'', ''m2''])"
    "str_lower ?E = (\<lambda>s. s)" "extract_body ?E = (\<lambda>s. s)"
    "\<And>n s. subprocess_run ?E n s = Inr (0, [], Some [37])"
    "utcnow ?E = (\<lambda>n. 0)" "tex_to_text ?E = (\<lambda>s. [78, 101, 119])"
    by (simp_all add: renaming_env_def example_env_def subprocess_run_def)
  have g0: "get_document w 1 = Some example_doc"
    using assms by (simp add: get_document_def example_doc_def)
  obtain W1 where m: "mark_processing ?E 1 w = (True, W1)"
    using g0 by (simp add: mark_processing_def)
  have "get_document (snd (mark_processing ?E 1 w)) 1
      = map_option (\<lambda>d. d\<lparr>status := ''processing'', last_error := None, d_updated_at := utc ?E w\<rparr>)
          (get_document w 1)"
    using g0 by (simp add: mark_processing_def get_document_tick get_document_update)
  then have g1: "get_document W1 1 = Some ?d" using g0 m by (simp add: utc_def fields)
  have x: "extracted_text ?d = Some [72, 105]" by (simp add: example_doc_def)
  let ?ft = "make_full_tex ?E [120] False"
  note ec = example_compute[OF g1 x fields(1-5)]
  obtain W2 where c: "transform_compute ?E example_settings 1 ''original'' False False False [] W1 = (Ok (Some ?ft), W2)"
    using ec(1) by (cases "transform_compute ?E example_settings 1 ''original'' False False False [] W1") auto
  have g2: "get_document W2 1 = Some ?d" using get_document_cong[OF ec(2)] g1 c by simp
  have a: "fst (editor_active ?E ?d W2)"
    by (simp add: editor_active_def example_doc_def fields Let_def)
  from persist_active[OF g2 a, of ?ft example_settings] obtain rows where
    r: "chunk_text (tex_to_text ?E ?ft) 1000 = Some rows"
       "fst (db_session (persist_if_active ?E example_settings 1 ?ft) W2) = Ok ()"
       "chunks_fts (snd (db_session (persist_if_active ?E example_settings 1 ?ft) W2))
         = filter (\<lambda>c. \<not> (c_doc_id c = 1 \<and> c_kind c = ''draft'')) (chunks_fts W2)
           @ map (insert_chunk 1 ''draft'') (enumerate 0 rows)" by blast
  have rows: "rows = [[78, 101, 119]]" using r(1) by (simp add: fields chunk_text_New)
  obtain W3 where p: "db_session (persist_if_active ?E example_settings 1 ?ft) W2 = (Ok (), W3)"
    using r(2) by (cases "db_session (persist_if_active ?E example_settings 1 ?ft) W2") auto
  have t: "transform_tex_task ?E example_settings 1 ''original'' False False False [] 1 w = (Ok (), W3)"
    using m c p by (simp add: transform_tex_task_def transform_body_def and_then_def)
  show "fst (transform_tex_task ?E example_settings 1 ''original'' False False False [] 1 w) = Ok ()"
    using t by simp
  have "filter (\<lambda>c. c_doc_id c = 1 \<and> c_kind c = ''draft'') (chunks_fts W3)
      = map (insert_chunk 1 ''draft'') (enumerate 0 rows)"
    using r(3) p filter_inserted[of "Suc 0" "''draft''"] by simp
  then show "map content (filter (\<lambda>c. c_doc_id c = 1 \<and> c_kind c = ''draft'')
      (chunks_fts (snd (transform_tex_task ?E example_settings 1 ''original'' False False False [] 1 w))))
     = [[78, 101, 119]]"
    unfolding t by (simp add: rows insert_chunk_def)
qed

text \<open>A document whose draft text \<open>Hi\<close> is indexed as one draft chunk.\<close>

theorem promote_keeps_draft_chunks_witness:
  "get_document w_draft 1 = Some example_doc \<and> first_version w_draft 1 ''draft'' = Some example_version
   \<and> uq_doc_kind w_draft
   \<and> filter (\<lambda>c. c_doc_id c = 1 \<and> c_kind c = ''draft'')
        (chunks_fts (snd (promote_draft_to_saved example_env example_settings 1 w_draft)))
       = [\<lparr>c_doc_id = 1, c_kind = ''draft'', chunk_id = ''0'', content = [72, 105]\<rparr>]
   \<and> first_version (snd (promote_draft_to_saved example_env example_settings 1 w_draft)) 1 ''draft'' = None
   \<and> filter (\<lambda>c. c_doc_id c = 1 \<and> c_kind c = ''draft'')
        (chunks_fts (snd (discard_draft example_settings 1
           (snd (promote_draft_to_saved example_env example_settings 1 w_draft))))) = []"
proof -
  have a: "get_document w_draft 1 = Some example_doc"
    by (simp add: get_document_def w_draft_def w_empty_def example_doc_def)
  have b: "first_version w_draft 1 ''draft'' = Some example_version"
    by (simp add: first_version_def w_draft_def w_empty_def example_version_def)
  have c: "uq_doc_kind w_draft"
    by (simp add: uq_doc_kind_def w_draft_def w_empty_def)
  have d: "filter (\<lambda>c. c_doc_id c = 1 \<and> c_kind c = ''draft'') (chunks_fts w_draft)
       = [\<lparr>c_doc_id = 1, c_kind = ''draft'', chunk_id = ''0'', content = [72, 105]\<rparr>]"
    by (simp add: w_draft_def w_empty_def)
  note t = promote_keeps_draft_chunks[OF a b c, of example_env example_settings]
  show ?thesis using a b c d t by simp
qed

text \<open>
  C10 as stated fails in its last clause: after the promotion, a transform job that
  persists a new draft rebuilds the draft index, and the stale chunk \<open>Hi\<close> is gone
  although \<open>discard_draft\<close> never ran.
\<close>

theorem draft_chunks_replaced_counterexample:
  "map content (filter (\<lambda>c. c_doc_id c = 1 \<and> c_kind c = ''draft'')
     (chunks_fts (snd (promote_draft_to_saved example_env example_settings 1 w_draft)))) = [[72, 105]]
   \<and> fst (transform_tex_task renaming_env example_settings 1 ''original'' False False False [] 1
        (snd (promote_draft_to_saved example_env example_settings 1 w_draft))) = Ok ()
   \<and> map content (filter (\<lambda>c. c_doc_id c = 1 \<and> c_kind c = ''draft'')
        (chunks_fts (snd (transform_tex_task renaming_env example_settings 1 ''original'' False False False [] 1
           (snd (promote_draft_to_saved example_env example_settings 1 w_draft)))))) = [[78, 101, 119]]"
  using promote_example_documents(2)
    transform_replaces_draft_chunks[OF promote_example_documents(1)]
  by simp

lemma long_message_length: "length long_message = 2001" "long_message \<noteq> []"
  by (auto simp: long_message_def)

lemma normalize_handler:
  "mark_processing E did w = (True, w1) \<Longrightarrow> normalize_body E S did w1 = (Raise e, w2) \<Longrightarrow>
   normalize_original_task E S did uid w = (Raise e, mark_error E did (take 2000 (str_exn e)) w2)"
  by (simp add: normalize_original_task_def)

text \<open>
  C5 at its failing inputs: when the extractor raises with a message of 2001 characters,
  \<open>process_pdf_task\<close> stores the whole message with status error and returns normally;
  when every model fails with that message, \<open>transform_tex_task\<close> raises, and stores the
  whole message as well. Only \<open>normalize_original_task\<close> both truncates and raises.
\<close>

theorem process_pdf_task_swallows_error:
  "fst (process_pdf_task unreadable_env 1 w_clean) = Ok ()
   \<and> map status (documents (snd (process_pdf_task unreadable_env 1 w_clean))) = [''error'']
   \<and> map last_error (documents (snd (process_pdf_task unreadable_env 1 w_clean))) = [Some long_message]
   \<and> length long_message = 2001
   \<and> fst (transform_tex_task offline_env example_settings 1 ''original'' False False False [] 1 w_clean)
       = Raise (RuntimeError long_message)
   \<and> map last_error (documents (snd (transform_tex_task offline_env example_settings 1 ''original''
        False False False [] 1 w_clean))) = [Some long_message]"
proof -
  have p: "process_pdf_task unreadable_env 1 w_clean =
      (Ok (), mark_error unreadable_env 1 long_message
         ((tick (snd (mark_processing unreadable_env 1 w_clean)))
            \<lparr>documents := documents (snd (mark_processing unreadable_env 1 w_clean)),
              versions := versions (snd (mark_processing unreadable_env 1 w_clean)),
              chunks_fts := chunks_fts (snd (mark_processing unreadable_env 1 w_clean))\<rparr>))"
    by (simp add: process_pdf_task_def mark_processing_def db_session_def process_pdf_body_def
        get_document_def w_clean_def w_empty_def example_doc_def update_document_def tick_def
        unreadable_env_def example_env_def)
  have 1: "fst (process_pdf_task unreadable_env 1 w_clean) = Ok ()" using p by simp
  have 2: "map status (documents (snd (process_pdf_task unreadable_env 1 w_clean))) = [''error'']"
    "map last_error (documents (snd (process_pdf_task unreadable_env 1 w_clean))) = [Some long_message]"
    unfolding p
    by (simp_all add: mark_error_def mark_processing_def get_document_def w_clean_def w_empty_def
        example_doc_def update_document_def tick_def)
  let ?E = offline_env
  have fields: "post_chat ?E = (\<lambda>n m s u. Inl (OtherError long_message))"
    "pick_models ?E = (\<lambda>n. Inr [''m1'', ''m2''])" "str_lower ?E = (\<lambda>s. s)"
    by (simp_all add: offline_env_def example_env_def)
  have l: "fst (call_llm_tex ?E example_settings a b w) = Raise (RuntimeError long_message)"
    "documents (snd (call_llm_tex ?E example_settings a b w)) = documents w" for a b w
    by (simp_all add: call_llm_tex_def model_candidates_def example_settings_def fields
        strip_str_openrouter strip_str_auto tick_def Let_def long_message_length)
  have g0: "get_document w_clean 1 = Some example_doc"
    by (simp add: get_document_def w_clean_def w_empty_def example_doc_def)
  obtain W1 where m: "mark_processing ?E 1 w_clean = (True, W1)"
    using g0 by (simp add: mark_processing_def)
  have d1: "documents W1 = [example_doc\<lparr>status := ''processing'', last_error := None,
       d_updated_at := 0\<rparr>]"
    using m by (auto simp: mark_processing_def get_document_def w_clean_def w_empty_def example_doc_def
        update_document_def tick_def utc_def offline_env_def example_env_def)
  have g1: "get_document W1 1 = Some (example_doc\<lparr>status := ''processing'', last_error := None,
       d_updated_at := 0\<rparr>)"
    by (simp add: get_document_def d1 example_doc_def)
  have x: "extracted_text (example_doc\<lparr>status := ''processing'', last_error := None,
       d_updated_at := 0\<rparr>) = Some [72, 105]" by (simp add: example_doc_def)
  note pr = example_prompts[OF g1 x, of ?E]
  obtain W2 where c: "call_llm_tex ?E example_settings system_prompt
       (build_user_prompt ?E [72, 105] False False False False []) W1 = (Raise (RuntimeError long_message), W2)"
    using l(1) by (metis prod.collapse)
  have d2: "documents W2 = documents W1" using l(2) c by (metis snd_conv)
  have b: "transform_body ?E example_settings 1 ''original'' False False False [] W1
      = (Raise (RuntimeError long_message), W2)"
    using pr c by (simp add: transform_body_def transform_compute_def db_session_def and_then_def)
  have t: "transform_tex_task ?E example_settings 1 ''original'' False False False [] 1 w_clean
      = (Raise (RuntimeError long_message), mark_error ?E 1 long_message W2)"
    using m b by (simp add: transform_tex_task_def)
  have 3: "fst (transform_tex_task ?E example_settings 1 ''original'' False False False [] 1 w_clean)
       = Raise (RuntimeError long_message)" using t by simp
  have 4: "map last_error (documents (snd (transform_tex_task ?E example_settings 1 ''original''
        False False False [] 1 w_clean))) = [Some long_message]"
    unfolding t using d1 d2
    by (simp add: mark_error_def get_document_def update_document_def tick_def example_doc_def)
  show ?thesis using 1 2 3 4 long_message_length(1) by simp
qed

end
